theory Spec2Isabelle
  imports Main
begin

section \<open>Errors, promises and the protocol libraries\<close>

text \<open>
  The driver is asynchronous TypeScript on top of three protocol libraries (imapflow,
  poplib, nodemailer). Every \<^verbatim>\<open>async\<close> method is modelled as a function from the
  state of the services to the way its promise settles, the observable events it caused
  (library calls and console lines, in order) and the new state.

  An error value is what a \<^verbatim>\<open>throw\<close> carries: an error raised by a protocol library, a
  plain \<^verbatim>\<open>new Error(msg)\<close>, or a \<^verbatim>\<open>new StandardizedError(msg, code, cause)\<close>.
\<close>

datatype err =
    LibError string
  | JsError string
  | StandardizedError string nat "err option"

text \<open>The text a template literal \<^verbatim>\<open>${error}\<close> puts for an error.\<close>

fun err_toString :: "err \<Rightarrow> string" where
  "err_toString (LibError s) = s"
| "err_toString (JsError m) = ''Error: '' @ m"
| "err_toString (StandardizedError m c cause) = ''Error: '' @ m"

text \<open>A promise is resolved, rejected, or never settles.\<close>

datatype 'a outcome = Resolved 'a | Rejected err | Pending

text \<open>
  What a library does when called: it returns, it throws, or it stays silent for ever
  (for poplib: the awaited event never fires).
\<close>

datatype 'a response = Returns 'a | Throws err | Silent

subsection \<open>IMAP data (imap.service.ts)\<close>

record address =
  addr_name :: "string option"
  addr_address :: "string option"

record MessageEnvelope =
  env_date :: "nat option"
  env_subject :: "string option"
  env_from :: "address list option"
  env_to :: "address list option"
  env_cc :: "address list option"
  env_bcc :: "address list option"
  env_messageId :: "string option"
  env_inReplyTo :: "string option"
  env_references :: "string list option"

datatype part =
  Part (partID: string) (ptype: string) (disposition: "string option")
       (filename: "string option") (psize: "nat option") (childNodes: "part list")

text \<open>A message as imapflow hands it over (\<^verbatim>\<open>FetchMessageObject\<close>).\<close>

record fetched =
  f_uid :: nat
  f_flags :: "string list"
  f_envelope :: MessageEnvelope
  f_size :: "nat option"
  f_bodyStructure :: "part option"

record Mailbox =
  mb_path :: string
  mb_name :: string

record BasicMessageInfo =
  uid :: nat
  flags :: "string list"
  envelope :: MessageEnvelope
  msize :: "nat option"

record AttachmentInfo =
  att_partID :: string
  att_type :: string
  att_filename :: "string option"
  att_size :: "nat option"
  att_disposition :: "string option"

record FullMessage = BasicMessageInfo +
  bodyStructure :: "part option"
  textBody :: "string option"
  htmlBody :: "string option"
  attachments :: "AttachmentInfo list"

text \<open>
  A sequence set \<^verbatim>\<open>`${a}:${b}`\<close>, kept as the two numbers it is built from.
\<close>

datatype range = Range nat nat

text \<open>
  What \<^verbatim>\<open>Number(id)\<close> gives for a message id: the natural number a plain decimal
  numeral denotes, or anything else, kept with the text it came from.
\<close>

datatype js_number = Num nat | NotDecimal string

text \<open>A byte stream as \<^verbatim>\<open>download().content\<close> returns it: its chunks, and the error that
  ends it early if there is one. \<^verbatim>\<open>OtherStream\<close> is an object that is neither async
  iterable nor has an \<^verbatim>\<open>on\<close> method.\<close>

datatype stream =
    AsyncIterable "string list" "err option"
  | NodeStream "string list" "err option"
  | OtherStream

subsection \<open>SMTP data (smtp.service.ts)\<close>

record MailAttachment =
  ma_filename :: string
  ma_content :: "string option"
  ma_contentType :: "string option"
  ma_path :: "string option"

record MailSendOptions =
  ms_from :: string
  ms_to :: "string list"
  ms_cc :: "string list option"
  ms_bcc :: "string list option"
  ms_subject :: string
  ms_text :: "string option"
  ms_html :: "string option"
  ms_attachments :: "MailAttachment list option"
  ms_headers :: "(string \<times> string) list option"

subsection \<open>Library calls, events and the environment\<close>

datatype lib_call =
    ImapConnect
  | ImapLogout
  | ImapList
  | GetMailboxLock string
  | LockRelease string
  | ImapStatus string
  | ImapFetch range
  | ImapFetchOne string
  | ImapDownload string string
  | MessageFlagsAdd string "string list"
  | MessageFlagsRemove string "string list"
  | MessageMove string string
  | Pop3Connect
  | Pop3List
  | Pop3Retr js_number
  | Pop3Quit
  | SmtpSendMail MailSendOptions
  | SmtpVerify

datatype status = Succeeded | Threw err | NoAnswer

text \<open>
  An event is a library call with how it ended, or a console line (level, first
  argument, and the error object passed as second argument if any).
\<close>

datatype event = Lib lib_call status | Console string string "err option"

text \<open>
  The environment: what each library call answers. The first argument of each field is
  the number of library calls answered so far, so the same call can end differently at
  different times; nothing is assumed about the answers.

  For poplib, whose results arrive as events: \<^verbatim>\<open>Returns\<close> is the event awaited
  (\<^verbatim>\<open>login\<close>, \<^verbatim>\<open>list\<close>, \<^verbatim>\<open>retr\<close>) with its arguments, \<^verbatim>\<open>Throws\<close> is the client's
  \<^verbatim>\<open>error\<close> event, \<^verbatim>\<open>Silent\<close> is no event at all.
\<close>

record script =
  imap_connect :: "nat \<Rightarrow> unit response"
  imap_logout :: "nat \<Rightarrow> unit response"
  imap_list :: "nat \<Rightarrow> Mailbox list response"
  imap_getMailboxLock :: "nat \<Rightarrow> string \<Rightarrow> unit response"
  imap_status :: "nat \<Rightarrow> string \<Rightarrow> nat option response"
  imap_fetch :: "nat \<Rightarrow> range \<Rightarrow> fetched list response"
  imap_fetchOne :: "nat \<Rightarrow> string \<Rightarrow> fetched option response"
  imap_download :: "nat \<Rightarrow> string \<Rightarrow> string \<Rightarrow> stream option response"
  imap_messageFlagsAdd :: "nat \<Rightarrow> string \<Rightarrow> string list \<Rightarrow> unit response"
  imap_messageFlagsRemove :: "nat \<Rightarrow> string \<Rightarrow> string list \<Rightarrow> unit response"
  imap_messageMove :: "nat \<Rightarrow> string \<Rightarrow> string \<Rightarrow> bool response"
  pop3_login :: "nat \<Rightarrow> (bool \<times> string) response"
  pop3_list :: "nat \<Rightarrow> (bool \<times> nat) response"
  pop3_retr :: "nat \<Rightarrow> js_number \<Rightarrow> (bool \<times> string \<times> string) response"
  smtp_sendMail :: "nat \<Rightarrow> MailSendOptions \<Rightarrow> (string \<times> string) response"
  smtp_verify :: "nat \<Rightarrow> bool response"

datatype imap_state = NOT_AUTHENTICATED | AUTHENTICATED | SELECTED | LOGOUT

text \<open>The fields of \<^verbatim>\<open>Pop3Service\<close>: whether \<^verbatim>\<open>client\<close> is non-null, and \<^verbatim>\<open>connected\<close>.\<close>

record Pop3Service =
  client :: bool
  connected :: bool

text \<open>
  The state a manager works on: the environment and its clock, the ImapFlow client's
  \<^verbatim>\<open>usable\<close> and \<^verbatim>\<open>state\<close>, the mailbox locks currently held, the host of the IMAP
  configuration, and the optional POP3 service of the manager.
\<close>

record world =
  env :: script
  clock :: nat
  usable :: bool
  cstate :: imap_state
  locks :: "string list"
  imap_host :: string
  pop3Service :: "Pop3Service option"

type_synonym 'a prog = "world \<Rightarrow> 'a outcome \<times> event list \<times> world"

subsection \<open>Sequencing, try/catch, console\<close>

definition returnE :: "'a \<Rightarrow> 'a prog" where
  "returnE a w = (Resolved a, [], w)"

definition throwE :: "err \<Rightarrow> 'a prog" where
  "throwE e w = (Rejected e, [], w)"

text \<open>\<^verbatim>\<open>const a = await m; f(a)\<close>: a rejection or a promise that never settles ends the
  sequence.\<close>

definition bindE :: "'a prog \<Rightarrow> ('a \<Rightarrow> 'b prog) \<Rightarrow> 'b prog" where
  "bindE m f w =
     (case m w of
        (Resolved a, es, w1) \<Rightarrow> (case f a w1 of (r, es2, w2) \<Rightarrow> (r, es @ es2, w2))
      | (Rejected e, es, w1) \<Rightarrow> (Rejected e, es, w1)
      | (Pending, es, w1) \<Rightarrow> (Pending, es, w1))"

text \<open>\<^verbatim>\<open>try { m } catch (error) { h(error) }\<close>\<close>

definition tryCatch :: "'a prog \<Rightarrow> (err \<Rightarrow> 'a prog) \<Rightarrow> 'a prog" where
  "tryCatch m h w =
     (case m w of
        (Rejected e, es, w1) \<Rightarrow> (case h e w1 of (r, es2, w2) \<Rightarrow> (r, es @ es2, w2))
      | other \<Rightarrow> other)"

definition console :: "string \<Rightarrow> string \<Rightarrow> err option \<Rightarrow> unit prog" where
  "console level msg obj w = (Resolved (), [Console level msg obj], w)"

text \<open>\<^verbatim>\<open>try { m } catch (error) { console.error(msg, error); throw error; }\<close>\<close>

definition rethrow :: "string \<Rightarrow> 'a prog \<Rightarrow> 'a prog" where
  "rethrow msg m =
     tryCatch m (\<lambda>error. bindE (console ''error'' msg (Some error)) (\<lambda>_. throwE error))"

text \<open>One call of a library: the environment answers at the current clock.\<close>

definition call :: "lib_call \<Rightarrow> (script \<Rightarrow> nat \<Rightarrow> 'a response) \<Rightarrow> 'a prog" where
  "call c answer w =
     (let w1 = w\<lparr>clock := Suc (clock w)\<rparr> in
      case answer (env w) (clock w) of
        Returns a \<Rightarrow> (Resolved a, [Lib c Succeeded], w1)
      | Throws e \<Rightarrow> (Rejected e, [Lib c (Threw e)], w1)
      | Silent \<Rightarrow> (Pending, [Lib c NoAnswer], w1))"

section \<open>The ImapFlow client\<close>

text \<open>
  Of the client's own behaviour the model keeps what the service reads: after a
  successful \<^verbatim>\<open>connect()\<close> the client is usable and authenticated, after \<^verbatim>\<open>logout()\<close>
  it is not usable and in state LOGOUT, a lock that was obtained is held until its
  \<^verbatim>\<open>release()\<close>.
\<close>

definition client_connect :: "unit prog" where
  "client_connect w =
     (case call ImapConnect imap_connect w of
        (Resolved u, es, w1) \<Rightarrow> (Resolved (), es, w1\<lparr>usable := True, cstate := AUTHENTICATED\<rparr>)
      | other \<Rightarrow> other)"

definition client_logout :: "unit prog" where
  "client_logout w =
     (case call ImapLogout imap_logout w of
        (r, es, w1) \<Rightarrow> (r, es, w1\<lparr>usable := False, cstate := LOGOUT\<rparr>))"

definition client_getMailboxLock :: "string \<Rightarrow> unit prog" where
  "client_getMailboxLock path w =
     (case call (GetMailboxLock path) (\<lambda>s t. imap_getMailboxLock s t path) w of
        (Resolved u, es, w1) \<Rightarrow> (Resolved (), es, w1\<lparr>locks := path # locks w1\<rparr>)
      | other \<Rightarrow> other)"

definition lock_release :: "string \<Rightarrow> unit prog" where
  "lock_release path w =
     (Resolved (), [Lib (LockRelease path) Succeeded], w\<lparr>locks := remove1 path (locks w)\<rparr>)"

section \<open>ImapService\<close>

definition ImapService_connect :: "unit prog" where
  "ImapService_connect w =
     (if usable w then
        console ''log'' ''IMAP client is already connected or connecting.'' None w
      else
        tryCatch
          (bindE client_connect
             (\<lambda>_. console ''log'' (''IMAP connected to '' @ imap_host w) None))
          (\<lambda>error.
             bindE (console ''error'' (''IMAP connection error to '' @ imap_host w @ '':'')
                      (Some error))
               (\<lambda>_. throwE error)) w)"

definition ImapService_disconnect :: "unit prog" where
  "ImapService_disconnect w =
     (if \<not> usable w \<and> cstate w = LOGOUT then
        console ''log'' ''IMAP client is already disconnected.'' None w
      else
        tryCatch
          (bindE client_logout
             (\<lambda>_. console ''log'' (''IMAP disconnected from '' @ imap_host w) None))
          (\<lambda>error.
             console ''error'' (''IMAP disconnection error from '' @ imap_host w @ '':'')
               (Some error)) w)"

definition connectIfNeeded :: "unit prog" where
  "connectIfNeeded w =
     (if \<not> usable w \<or> cstate w = LOGOUT then
        bindE (console ''log'' ''IMAP client not connected, attempting to connect...'' None)
          (\<lambda>_. ImapService_connect) w
      else returnE () w)"

text \<open>
  The frame every mailbox operation has around its body:
  \<^verbatim>\<open>let lock; try { lock = await getMailboxLock(path); body }
  catch (error) { console.error(msg, error); throw error; }
  finally { if (lock) lock.release(); }\<close>.
  When \<^verbatim>\<open>getMailboxLock\<close> throws, \<^verbatim>\<open>lock\<close> is still undefined in \<^verbatim>\<open>finally\<close>; when
  an awaited promise never settles, \<^verbatim>\<open>finally\<close> is never reached.
\<close>

definition withMailboxLock :: "string \<Rightarrow> string \<Rightarrow> 'a prog \<Rightarrow> 'a prog" where
  "withMailboxLock mailboxPath msg body w =
     (case client_getMailboxLock mailboxPath w of
        (Resolved lock, es, w1) \<Rightarrow>
          (case rethrow msg body w1 of
             (Pending, es2, w2) \<Rightarrow> (Pending, es @ es2, w2)
           | (r, es2, w2) \<Rightarrow>
               (case lock_release mailboxPath w2 of
                  (_, es3, w3) \<Rightarrow> (r, es @ es2 @ es3, w3)))
      | (Rejected error, es, w1) \<Rightarrow>
          (Rejected error, es @ [Console ''error'' msg (Some error)], w1)
      | (Pending, es, w1) \<Rightarrow> (Pending, es, w1))"

definition ImapService_listMailboxes :: "Mailbox list prog" where
  "ImapService_listMailboxes =
     bindE connectIfNeeded (\<lambda>_.
       rethrow ''IMAP listMailboxes error:''
         (bindE (call ImapList imap_list)
            (\<lambda>mailboxes. returnE (map (\<lambda>mb. \<lparr>mb_path = mb_path mb, mb_name = mb_name mb\<rparr>) mailboxes))))"

text \<open>\<^verbatim>\<open>x || undefined\<close> on an optional string: the empty string is falsy.\<close>

definition orUndefined :: "string option \<Rightarrow> string option" where
  "orUndefined x = (case x of None \<Rightarrow> None | Some s \<Rightarrow> if s = [] then None else Some s)"

definition mapAddress :: "address \<Rightarrow> address" where
  "mapAddress f = \<lparr>addr_name = addr_name f, addr_address = addr_address f\<rparr>"

definition mapEnvelope :: "MessageEnvelope \<Rightarrow> MessageEnvelope" where
  "mapEnvelope e =
     \<lparr>env_date = env_date e,
      env_subject = orUndefined (env_subject e),
      env_from = map_option (map mapAddress) (env_from e),
      env_to = map_option (map mapAddress) (env_to e),
      env_cc = map_option (map mapAddress) (env_cc e),
      env_bcc = map_option (map mapAddress) (env_bcc e),
      env_messageId = orUndefined (env_messageId e),
      env_inReplyTo = orUndefined (env_inReplyTo e),
      env_references = env_references e\<rparr>"

definition basicInfo :: "fetched \<Rightarrow> BasicMessageInfo" where
  "basicInfo msg =
     \<lparr>uid = f_uid msg, flags = f_flags msg, envelope = mapEnvelope (f_envelope msg),
      msize = f_size msg\<rparr>"

text \<open>The \<^verbatim>\<open>for await\<close> loop over \<^verbatim>\<open>client.fetch(fetchRange, ...)\<close>: the messages
  pushed so far are lost when the iteration throws.\<close>

definition fetchRange :: "range \<Rightarrow> BasicMessageInfo list prog" where
  "fetchRange r =
     bindE (call (ImapFetch r) (\<lambda>s t. imap_fetch s t r)) (\<lambda>msgs. returnE (map basicInfo msgs))"

text \<open>JavaScript truthiness of an optional number: undefined and 0 are falsy.\<close>

definition truthy :: "nat option \<Rightarrow> bool" where
  "truthy x = (case x of None \<Rightarrow> False | Some n \<Rightarrow> n \<noteq> 0)"

text \<open>The number an optional number holds where it is used in arithmetic (only read
  where it is truthy).\<close>

definition num :: "nat option \<Rightarrow> nat" where
  "num x = (case x of None \<Rightarrow> 0 | Some n \<Rightarrow> n)"

definition ImapService_listMessages ::
  "string \<Rightarrow> nat option \<Rightarrow> nat option \<Rightarrow> BasicMessageInfo list prog" where
  "ImapService_listMessages mailboxPath startSeq count =
     bindE connectIfNeeded (\<lambda>_.
       withMailboxLock mailboxPath (''IMAP listMessages error in '' @ mailboxPath @ '':'')
         (if truthy startSeq \<and> truthy count then
            fetchRange (Range (num startSeq) (num startSeq + num count - 1))
          else if truthy count then
            bindE (call (ImapStatus mailboxPath) (\<lambda>s t. imap_status s t mailboxPath))
              (\<lambda>messages.
                 let totalMessages = (case messages of None \<Rightarrow> 0 | Some m \<Rightarrow> m) in
                 if totalMessages > 0 then
                   let start = nat (max 1 (int totalMessages - int (num count) + 1)) in
                   fetchRange (Range start totalMessages)
                 else returnE [])
          else fetchRange (Range 1 100)))"

definition ImapService_setFlags :: "string \<Rightarrow> string \<Rightarrow> string list \<Rightarrow> unit prog" where
  "ImapService_setFlags mailboxPath uidOrRange fl =
     bindE connectIfNeeded (\<lambda>_.
       withMailboxLock mailboxPath (''IMAP setFlags error in '' @ mailboxPath @ '':'')
         (call (MessageFlagsAdd uidOrRange fl) (\<lambda>s t. imap_messageFlagsAdd s t uidOrRange fl)))"

definition ImapService_unsetFlags :: "string \<Rightarrow> string \<Rightarrow> string list \<Rightarrow> unit prog" where
  "ImapService_unsetFlags mailboxPath uidOrRange fl =
     bindE connectIfNeeded (\<lambda>_.
       withMailboxLock mailboxPath (''IMAP unsetFlags error in '' @ mailboxPath @ '':'')
         (call (MessageFlagsRemove uidOrRange fl)
            (\<lambda>s t. imap_messageFlagsRemove s t uidOrRange fl)))"

definition ImapService_moveMessage :: "string \<Rightarrow> string \<Rightarrow> string \<Rightarrow> unit prog" where
  "ImapService_moveMessage mailboxPath uid' destinationMailboxPath =
     bindE connectIfNeeded (\<lambda>_.
       withMailboxLock mailboxPath
         (''IMAP moveMessage error from '' @ mailboxPath @ '' to '' @ destinationMailboxPath @ '':'')
         (bindE (call (MessageMove uid' destinationMailboxPath)
                   (\<lambda>s t. imap_messageMove s t uid' destinationMailboxPath))
            (\<lambda>moveResponse. console ''log'' ''IMAP message move response:'' None)))"

definition ImapService_downloadAttachment ::
  "string \<Rightarrow> string \<Rightarrow> string \<Rightarrow> stream option prog" where
  "ImapService_downloadAttachment mailboxPath uid' partID' =
     bindE connectIfNeeded (\<lambda>_.
       withMailboxLock mailboxPath
         (''IMAP downloadAttachment error for UID '' @ uid' @ '', partID '' @ partID' @ '' in ''
            @ mailboxPath @ '':'')
         (call (ImapDownload uid' partID') (\<lambda>s t. imap_download s t uid' partID')))"

text \<open>JavaScript truthiness of an optional string: undefined and the empty string are
  falsy. \<^verbatim>\<open>x || d\<close> is \<^verbatim>\<open>x\<close> when truthy, else \<^verbatim>\<open>d\<close>.\<close>

definition truthyS :: "string option \<Rightarrow> bool" where
  "truthyS x = (case x of None \<Rightarrow> False | Some s \<Rightarrow> s \<noteq> [])"

definition orElse :: "string option \<Rightarrow> string \<Rightarrow> string" where
  "orElse x d = (case x of None \<Rightarrow> d | Some s \<Rightarrow> if s = [] then d else s)"

text \<open>What \<^verbatim>\<open>fetchMessage\<close> collects while it walks the body structure.\<close>

record bodies =
  b_textBody :: "string option"
  b_htmlBody :: "string option"
  b_attachments :: "AttachmentInfo list"

text \<open>\<^verbatim>\<open>const content = await this.client.download(uid, currentPartID);
  for await (const chunk of content.content) strContent += chunk.toString();\<close>
  Reading \<^verbatim>\<open>content\<close> of nothing, or iterating what is not async iterable, throws a
  TypeError.\<close>

definition readContent :: "string \<Rightarrow> string \<Rightarrow> string prog" where
  "readContent uid' currentPartID =
     bindE (call (ImapDownload uid' currentPartID) (\<lambda>s t. imap_download s t uid' currentPartID))
       (\<lambda>content.
          case content of
            Some (AsyncIterable chunks None) \<Rightarrow> returnE (concat chunks)
          | Some (AsyncIterable chunks (Some e)) \<Rightarrow> throwE e
          | _ \<Rightarrow> throwE (JsError ''TypeError''))"

fun findBodyParts :: "string \<Rightarrow> part \<Rightarrow> string \<Rightarrow> bodies \<Rightarrow> bodies prog"
  and findBodyPartsEach :: "string \<Rightarrow> part list \<Rightarrow> string \<Rightarrow> bodies \<Rightarrow> bodies prog" where
  "findBodyParts uid' (Part pid ty disp fname sz children) partIDPrefix acc =
     (let currentPartID = (if partIDPrefix \<noteq> [] then partIDPrefix @ ''.'' @ pid else pid) in
      bindE
        (if ty = ''text/plain'' \<and> \<not> truthyS disp then
           bindE (readContent uid' currentPartID) (\<lambda>strContent. returnE (acc\<lparr>b_textBody := Some strContent\<rparr>))
         else if ty = ''text/html'' \<and> \<not> truthyS disp then
           bindE (readContent uid' currentPartID) (\<lambda>strContent. returnE (acc\<lparr>b_htmlBody := Some strContent\<rparr>))
         else returnE acc)
        (\<lambda>acc1.
           let acc2 =
             (if disp = Some ''attachment'' \<or> (truthyS fname \<and> ty \<noteq> ''text/plain'' \<and> ty \<noteq> ''text/html'')
              then acc1\<lparr>b_attachments := b_attachments acc1 @
                     [\<lparr>att_partID = currentPartID, att_type = ty,
                       att_filename = Some (orElse fname ''untitled''),
                       att_size = sz, att_disposition = disp\<rparr>]\<rparr>
              else acc1)
           in findBodyPartsEach uid' children currentPartID acc2))"
| "findBodyPartsEach uid' [] partIDPrefix acc = returnE acc"
| "findBodyPartsEach uid' (p # ps) partIDPrefix acc =
     bindE (findBodyParts uid' p partIDPrefix acc)
       (\<lambda>acc1. findBodyPartsEach uid' ps partIDPrefix acc1)"

definition ImapService_fetchMessage :: "string \<Rightarrow> string \<Rightarrow> FullMessage option prog" where
  "ImapService_fetchMessage mailboxPath uid' =
     bindE connectIfNeeded (\<lambda>_.
       withMailboxLock mailboxPath
         (''IMAP fetchMessage error for UID '' @ uid' @ '' in '' @ mailboxPath @ '':'')
         (bindE (call (ImapFetchOne uid') (\<lambda>s t. imap_fetchOne s t uid'))
            (\<lambda>message.
               case message of
                 None \<Rightarrow> returnE None
               | Some m \<Rightarrow>
                   bindE
                     (let start = \<lparr>b_textBody = None, b_htmlBody = None, b_attachments = []\<rparr> in
                      case f_bodyStructure m of
                        None \<Rightarrow> returnE start
                      | Some bs \<Rightarrow>
                          if childNodes bs \<noteq> [] then findBodyPartsEach uid' (childNodes bs) [] start
                          else findBodyParts uid' bs [] start)
                     (\<lambda>b. returnE (Some
                        \<lparr>uid = f_uid m, flags = f_flags m, envelope = mapEnvelope (f_envelope m),
                         msize = f_size m, bodyStructure = f_bodyStructure m,
                         textBody = b_textBody b, htmlBody = b_htmlBody b,
                         attachments = b_attachments b\<rparr>)))))"

section \<open>SmtpService\<close>

text \<open>\<^verbatim>\<open>from: options.from || this.config.auth.user\<close>; the manager builds the service
  with \<^verbatim>\<open>auth.user\<close> set to the e-mail address of its configuration.\<close>

definition SmtpService_sendMail :: "string \<Rightarrow> MailSendOptions \<Rightarrow> (string \<times> string) prog" where
  "SmtpService_sendMail user options =
     rethrow ''SMTP sendMail error:''
       (let mailOptions = options\<lparr>ms_from := (if ms_from options \<noteq> [] then ms_from options else user)\<rparr> in
        bindE (call (SmtpSendMail mailOptions) (\<lambda>s t. smtp_sendMail s t mailOptions))
          (\<lambda>info. bindE (console ''log'' (''SMTP mail sent: '' @ fst info) None)
             (\<lambda>_. returnE (fst info, snd info))))"

definition SmtpService_verifyConnection :: "bool prog" where
  "SmtpService_verifyConnection =
     tryCatch
       (bindE (call SmtpVerify smtp_verify)
          (\<lambda>success.
             bindE (if success then console ''log'' ''SMTP connection verified successfully.'' None
                    else console ''error''
                           ''SMTP connection verification failed, but no error was thrown.'' None)
               (\<lambda>_. returnE success)))
       (\<lambda>error. bindE (console ''error'' ''SMTP connection verification failed:'' (Some error))
          (\<lambda>_. returnE False))"

section \<open>Pop3Service\<close>

definition pop3_client :: "world \<Rightarrow> bool" where
  "pop3_client w = (case pop3Service w of None \<Rightarrow> False | Some p \<Rightarrow> client p)"

definition pop3_connected :: "world \<Rightarrow> bool" where
  "pop3_connected w = (case pop3Service w of None \<Rightarrow> False | Some p \<Rightarrow> connected p)"

definition pop3_update :: "(Pop3Service \<Rightarrow> Pop3Service) \<Rightarrow> world \<Rightarrow> world" where
  "pop3_update f w = w\<lparr>pop3Service := map_option f (pop3Service w)\<rparr>"

text \<open>
  \<^verbatim>\<open>connect()\<close> makes a new client and waits for its \<^verbatim>\<open>login\<close> event (resolve when
  the status is true, reject otherwise) or its \<^verbatim>\<open>error\<close> event (reject).
\<close>

definition Pop3Service_connect :: "unit prog" where
  "Pop3Service_connect w =
     bindE (call Pop3Connect pop3_login)
       (\<lambda>(status, rawdata).
          if status then (\<lambda>w1. (Resolved (), [], pop3_update (\<lambda>p. p\<lparr>connected := True\<rparr>) w1))
          else throwE (JsError (''POP3 login failed: '' @ rawdata)))
       (pop3_update (\<lambda>p. p\<lparr>client := True\<rparr>) w)"

definition Pop3Service_connectIfNeeded :: "unit prog" where
  "Pop3Service_connectIfNeeded w =
     (if \<not> pop3_connected w then Pop3Service_connect w else returnE () w)"

text \<open>
  Both reading methods are \<^verbatim>\<open>new Promise(async (resolve, reject) => { ... })\<close>. Only
  \<^verbatim>\<open>resolve\<close> and \<^verbatim>\<open>reject\<close> settle the promise returned: when
  \<^verbatim>\<open>await this.connectIfNeeded()\<close> throws inside the executor, neither is ever called.
  The \<^verbatim>\<open>error\<close> event of the client only reaches the handler \<^verbatim>\<open>connect()\<close> installed,
  which rejects the promise of \<^verbatim>\<open>connect()\<close>.
\<close>

definition executor :: "unit prog \<Rightarrow> 'b response prog \<Rightarrow> ('b \<Rightarrow> 'a prog) \<Rightarrow> 'a prog" where
  "executor before command onEvent w =
     (case before w of
        (Resolved u, es, w1) \<Rightarrow>
          (case command w1 of
             (Resolved (Returns b), es2, w2) \<Rightarrow>
               (case onEvent b w2 of (r, es3, w3) \<Rightarrow> (r, es @ es2 @ es3, w3))
           | (_, es2, w2) \<Rightarrow> (Pending, es @ es2, w2))
      | (_, es, w1) \<Rightarrow> (Pending, es, w1))"

text \<open>A poplib command and the event that answers it, if one does.\<close>

definition command :: "lib_call \<Rightarrow> (script \<Rightarrow> nat \<Rightarrow> 'a response) \<Rightarrow> 'a response prog" where
  "command c answer w =
     (let r = answer (env w) (clock w) in
      (Resolved r,
       [Lib c (case r of Returns a \<Rightarrow> Succeeded | Throws e \<Rightarrow> Threw e | Silent \<Rightarrow> NoAnswer)],
       w\<lparr>clock := Suc (clock w)\<rparr>))"

text \<open>\<^verbatim>\<open>for (let i = 0; i < msgcount; i++) numbers.push(i + 1);\<close>\<close>

function pushNumbers :: "nat \<Rightarrow> nat \<Rightarrow> nat list \<Rightarrow> nat list" where
  "pushNumbers i msgcount numbers =
     (if i < msgcount then pushNumbers (i + 1) msgcount (numbers @ [i + 1]) else numbers)"
  by pat_completeness auto
termination
  by (relation "measure (\<lambda>(i, msgcount, numbers). msgcount - i)") auto

declare pushNumbers.simps [simp del]

definition Pop3Service_listMessages :: "nat list prog" where
  "Pop3Service_listMessages w =
     (if \<not> pop3_client w then throwE (JsError ''Not connected'') w
      else
        executor Pop3Service_connectIfNeeded (command Pop3List pop3_list)
          (\<lambda>(status, msgcount).
             if status then returnE (pushNumbers 0 msgcount [])
             else throwE (JsError ''POP3 LIST failed'')) w)"

definition Pop3Service_fetchMessage :: "js_number \<Rightarrow> string prog" where
  "Pop3Service_fetchMessage n w =
     (if \<not> pop3_client w then throwE (JsError ''Not connected'') w
      else
        executor Pop3Service_connectIfNeeded (command (Pop3Retr n) (\<lambda>s t. pop3_retr s t n))
          (\<lambda>(status, rawdata, dataBuffer).
             if status then returnE dataBuffer
             else throwE (JsError (''POP3 RETR failed: '' @ rawdata))) w)"

text \<open>\<^verbatim>\<open>this.client?.quit(); this.client = null;\<close>\<close>

definition Pop3Service_quit :: "unit prog" where
  "Pop3Service_quit w =
     (Resolved (), (if pop3_client w then [Lib Pop3Quit Succeeded] else []),
      pop3_update (\<lambda>p. p\<lparr>client := False\<rparr>) w)"

section \<open>GenericMailManager\<close>

subsection \<open>Strings and numbers of JavaScript\<close>

text \<open>
  Strings are lists of 8-bit characters. \<^verbatim>\<open>n.toString()\<close> of a natural number is its
  decimal numeral; \<^verbatim>\<open>Number(id)\<close> of a non-empty string of decimal digits is the number
  it denotes.
\<close>

definition digit :: "nat \<Rightarrow> char" where
  "digit d = ''0123456789'' ! d"

function toString :: "nat \<Rightarrow> string" where
  "toString n = (if n < 10 then [digit n] else toString (n div 10) @ [digit (n mod 10)])"
  by pat_completeness auto
termination
  by (relation "measure id") auto

declare toString.simps [simp del]

definition isDigit :: "char \<Rightarrow> bool" where
  "isDigit c = (48 \<le> (of_char c :: nat) \<and> (of_char c :: nat) \<le> 57)"

definition digitVal :: "char \<Rightarrow> nat" where
  "digitVal c = of_char c - 48"

definition Number :: "string \<Rightarrow> js_number" where
  "Number s =
     (if s \<noteq> [] \<and> list_all isDigit s then Num (foldl (\<lambda>acc c. 10 * acc + digitVal c) 0 s)
      else NotDecimal s)"

definition backslash :: char where
  "backslash = CHR 0x5C"

definition Seen :: string where "Seen = backslash # ''Seen''"
definition Deleted :: string where "Deleted = backslash # ''Deleted''"
definition Draft :: string where "Draft = backslash # ''Draft''"
definition Starred :: string where "Starred = backslash # ''Starred''"
definition Flagged :: string where "Flagged = backslash # ''Flagged''"

subsection \<open>The types of the MailManager interface (types.ts), as the driver uses them\<close>

text \<open>
  Of \<^verbatim>\<open>ParsedMessage\<close> the fields \<^verbatim>\<open>receivedOn\<close> and \<^verbatim>\<open>sentOn\<close> (which fall back to
  the wall clock), \<^verbatim>\<open>snoozedUntil\<close> (always null) and \<^verbatim>\<open>$raw\<close> (development only) are
  left out.
\<close>

record Sender =
  s_name :: string
  s_email :: string

datatype label_kind = System | Folder

record Label =
  label_id :: string
  label_name :: string
  label_type :: label_kind

record Attachment =
  a_id :: string
  a_name :: string
  a_contentType :: string
  a_size :: "nat option"

record ParsedMessage =
  pm_id :: string
  pm_threadId :: string
  pm_mailbox :: string
  pm_subject :: string
  pm_from :: "Sender option"
  pm_to :: "Sender list"
  pm_cc :: "Sender list"
  pm_bcc :: "Sender list"
  pm_bodyPlain :: "string option"
  pm_bodyHtml :: "string option"
  pm_read :: bool
  pm_labels :: "Label list"
  pm_attachments :: "Attachment list"
  pm_isDraft :: bool
  pm_isScheduled :: bool

record IGetThreadResponse =
  messages :: "ParsedMessage list"
  latest :: ParsedMessage
  hasUnread :: bool
  totalReplies :: nat
  labels :: "Label list"

record ParsedDraft =
  d_id :: string
  d_to :: "string list option"
  d_cc :: "string list option"
  d_bcc :: "string list option"
  d_subject :: "string option"
  d_content :: "string option"

record thread =
  thread_id :: string

record listing =
  threads :: "thread list"
  nextPageToken :: "string option"

record list_params =
  folder :: string
  maxResults :: "nat option"
  pageToken :: "nat option"




text \<open>\<^verbatim>\<open>config.auth\<close>: the e-mail address and the optional display name.\<close>

record auth_config =
  email :: string
  auth_name :: "string option"

subsection \<open>Mapping messages\<close>

definition toSender :: "address \<Rightarrow> Sender" where
  "toSender t = \<lparr>s_name = orElse (addr_name t) [], s_email = orElse (addr_address t) []\<rparr>"

definition parties :: "address list option \<Rightarrow> address list" where
  "parties x = (case x of None \<Rightarrow> [] | Some ps \<Rightarrow> ps)"

definition mapImapMessageToParsedMessage :: "FullMessage \<Rightarrow> string \<Rightarrow> ParsedMessage" where
  "mapImapMessageToParsedMessage msg mailbox =
     (let fromParty = (case env_from (envelope msg) of Some (f # _) \<Rightarrow> Some f | _ \<Rightarrow> None);
          toParties = parties (env_to (envelope msg));
          ccParties = parties (env_cc (envelope msg));
          bccParties = parties (env_bcc (envelope msg))
      in
      \<lparr>pm_id = toString (uid msg),
       pm_threadId = toString (uid msg),
       pm_mailbox = mailbox,
       pm_subject = orElse (env_subject (envelope msg)) [],
       pm_from = map_option toSender fromParty,
       pm_to = map toSender toParties,
       pm_cc = map toSender ccParties,
       pm_bcc = map toSender bccParties,
       pm_bodyPlain = textBody msg,
       pm_bodyHtml = htmlBody msg,
       pm_read = (Seen \<in> set (flags msg)),
       pm_labels = map (\<lambda>f. \<lparr>label_id = f,
                               label_name = (case f of c # rest \<Rightarrow> if c = backslash then rest else f | [] \<Rightarrow> f),
                               label_type = System\<rparr>) (flags msg),
       pm_attachments = map (\<lambda>att. \<lparr>a_id = att_partID att,
                                     a_name = orElse (att_filename att) (''attachment-'' @ att_partID att),
                                     a_contentType = att_type att,
                                     a_size = att_size att\<rparr>) (attachments msg),
       pm_isDraft = (Draft \<in> set (flags msg)),
       pm_isScheduled = False\<rparr>)"

text \<open>
  The regular expressions of \<^verbatim>\<open>parsePop3Message\<close>: \<^verbatim>\<open>/\r?\n/\<close> and
  \<^verbatim>\<open>/\r?\n\r?\n/\<close>, each as the length of its match at the head of a string (0 when
  it does not match there), and \<^verbatim>\<open>String.prototype.split\<close> on such a pattern.
\<close>

definition CR :: char where "CR = CHR 0x0D"
definition LF :: char where "LF = CHR 0x0A"

fun eolLen :: "string \<Rightarrow> nat" where
  "eolLen [] = 0"
| "eolLen [c] = (if c = LF then 1 else 0)"
| "eolLen (c # d # s) = (if c = CR \<and> d = LF then 2 else if c = LF then 1 else 0)"

definition blankLen :: "string \<Rightarrow> nat" where
  "blankLen s =
     (let a = eolLen s in
      if a = 0 then 0
      else let b = eolLen (drop a s) in if b = 0 then 0 else a + b)"

function splitBy :: "(string \<Rightarrow> nat) \<Rightarrow> string \<Rightarrow> string \<Rightarrow> string list" where
  "splitBy matchLen cur [] = [cur]"
| "splitBy matchLen cur (c # s) =
     (if matchLen (c # s) = 0 then splitBy matchLen (cur @ [c]) s
      else cur # splitBy matchLen [] (drop (matchLen (c # s)) (c # s)))"
  by pat_completeness auto
termination
  by (relation "measure (\<lambda>(matchLen, cur, s). length s)") auto

declare splitBy.simps [simp del]

definition split :: "(string \<Rightarrow> nat) \<Rightarrow> string \<Rightarrow> string list" where
  "split matchLen s = splitBy matchLen [] s"

text \<open>\<^verbatim>\<open>trim()\<close> and \<^verbatim>\<open>toLowerCase()\<close>, on ASCII.\<close>

definition isSpace :: "char \<Rightarrow> bool" where
  "isSpace c = (c \<in> set [CHR 0x09, CHR 0x0A, CHR 0x0B, CHR 0x0C, CHR 0x0D, CHR 0x20])"

definition trim :: "string \<Rightarrow> string" where
  "trim s = rev (dropWhile isSpace (rev (dropWhile isSpace s)))"

definition toLowerCase :: "string \<Rightarrow> string" where
  "toLowerCase s =
     map (\<lambda>c. case map_of (zip ''ABCDEFGHIJKLMNOPQRSTUVWXYZ'' ''abcdefghijklmnopqrstuvwxyz'') c of
                 Some l \<Rightarrow> l | None \<Rightarrow> c) s"

text \<open>\<^verbatim>\<open>parts.join(sep)\<close>\<close>

fun join :: "string \<Rightarrow> string list \<Rightarrow> string" where
  "join sep [] = []"
| "join sep [x] = x"
| "join sep (x # y # ys) = x @ sep @ join sep (y # ys)"

text \<open>The loop over the header lines: a line with a colon sets \<^verbatim>\<open>headers[key]\<close>.\<close>

definition headerLine :: "(string \<rightharpoonup> string) \<Rightarrow> string \<Rightarrow> (string \<rightharpoonup> string)" where
  "headerLine headers line =
     (if CHR '':'' \<in> set line then
        headers(toLowerCase (trim (takeWhile (\<lambda>c. c \<noteq> CHR '':'') line))
                  \<mapsto> trim (tl (dropWhile (\<lambda>c. c \<noteq> CHR '':'') line)))
      else headers)"

definition parsePop3Message :: "string \<Rightarrow> string \<Rightarrow> ParsedMessage" where
  "parsePop3Message raw id' =
     (let pieces = split blankLen raw;
          headerPart = hd pieces;
          bodyParts = tl pieces;
          headers = foldl headerLine Map.empty (split eolLen headerPart)
      in
      \<lparr>pm_id = id',
       pm_threadId = id',
       pm_mailbox = ''INBOX'',
       pm_subject = orElse (headers ''subject'') [],
       pm_from = (if truthyS (headers ''from'')
                  then Some \<lparr>s_name = [], s_email = orElse (headers ''from'') []\<rparr> else None),
       pm_to = [],
       pm_cc = [],
       pm_bcc = [],
       pm_bodyPlain = Some (join [LF, LF] bodyParts),
       pm_bodyHtml = None,
       pm_read = False,
       pm_labels = [],
       pm_attachments = [],
       pm_isDraft = False,
       pm_isScheduled = False\<rparr>)"

subsection \<open>The constructor\<close>

text \<open>
  \<^verbatim>\<open>new GenericMailManager(config)\<close>: the services are built; when the configuration
  has a \<^verbatim>\<open>pop3\<close> part, the POP3 service is built and \<^verbatim>\<open>connect()\<close> is started on it,
  with its rejection logged and dropped. The state returned is the one the first
  operation finds once that connection attempt has ended.
\<close>

definition GenericMailManager :: "script \<Rightarrow> string \<Rightarrow> bool \<Rightarrow> event list \<times> world" where
  "GenericMailManager s host pop3 =
     (let w0 = \<lparr>env = s, clock = 0, usable = False, cstate = NOT_AUTHENTICATED, locks = [],
                imap_host = host, pop3Service = None\<rparr>
      in
      if pop3 then
        (case tryCatch Pop3Service_connect
                (\<lambda>err. console ''error'' ''POP3 connection error:'' (Some err))
                (w0\<lparr>pop3Service := Some \<lparr>client = False, connected = False\<rparr>\<rparr>) of
           (r, es, w1) \<Rightarrow> (es, w1))
      else ([], w0))"

subsection \<open>Essential implementation\<close>

definition notFound :: err where
  "notFound = StandardizedError ''Message not found'' 404 None"

definition Manager_get :: "string \<Rightarrow> IGetThreadResponse prog" where
  "Manager_get id' w =
     (let mailbox = ''INBOX'' in
      case pop3Service w of
        Some p \<Rightarrow>
          bindE (tryCatch (bindE (Pop3Service_fetchMessage (Number id')) (\<lambda>raw. returnE (Some raw)))
                   (\<lambda>_. returnE None))
            (\<lambda>message.
               if \<not> truthyS message then throwE notFound
               else
                 let parsedMessage = parsePop3Message (orElse message []) id' in
                 returnE \<lparr>messages = [parsedMessage], latest = parsedMessage, hasUnread = True,
                          totalReplies = 0, labels = []\<rparr>) w
      | None \<Rightarrow>
          bindE (ImapService_fetchMessage mailbox id')
            (\<lambda>message.
               case message of
                 None \<Rightarrow> throwE notFound
               | Some m \<Rightarrow>
                   let parsedMessage = mapImapMessageToParsedMessage m mailbox in
                   returnE \<lparr>messages = [parsedMessage], latest = parsedMessage,
                            hasUnread = (Seen \<notin> set (flags m)),
                            totalReplies = 0,
                            labels = map (\<lambda>flag. \<lparr>label_id = flag, label_name = flag,
                                                   label_type = System\<rparr>) (flags m)\<rparr>) w)"

definition emptyEnvelope :: MessageEnvelope where
  "emptyEnvelope =
     \<lparr>env_date = None, env_subject = None, env_from = None, env_to = None, env_cc = None,
      env_bcc = None, env_messageId = None, env_inReplyTo = None, env_references = None\<rparr>"

definition Manager_list :: "list_params \<Rightarrow> listing prog" where
  "Manager_list params w =
     bindE
       (case pop3Service w of
          Some p \<Rightarrow>
            bindE Pop3Service_listMessages
              (\<lambda>nums. returnE (map (\<lambda>n. \<lparr>uid = n, flags = [], envelope = emptyEnvelope,
                                            msize = None\<rparr>) nums))
        | None \<Rightarrow> ImapService_listMessages (folder params) (pageToken params) (maxResults params))
       (\<lambda>msgs.
          returnE
            \<lparr>threads = map (\<lambda>msg. \<lparr>thread_id = toString (uid msg)\<rparr>) msgs,
             nextPageToken =
               (if length msgs > 0 \<and> truthy (maxResults params)
                   \<and> length msgs = num (maxResults params)
                then Some (toString (uid (last msgs) + 1)) else None)\<rparr>) w"


text \<open>\<^verbatim>\<open>for (const x of xs) { await f(x); }\<close>\<close>

fun forEach :: "'a list \<Rightarrow> ('a \<Rightarrow> unit prog) \<Rightarrow> unit prog" where
  "forEach [] f = returnE ()"
| "forEach (x # xs) f = bindE (f x) (\<lambda>_. forEach xs f)"



definition Manager_delete :: "string \<Rightarrow> unit prog" where
  "Manager_delete id' =
     (let trashFolder = ''Trash''; sourceMailbox = ''INBOX'' in
      tryCatch (ImapService_moveMessage sourceMailbox id' trashFolder)
        (\<lambda>error.
           bindE (console ''warn''
                    (''Could not move message '' @ id' @ '' to '' @ trashFolder @ ''. Setting ''
                       @ Deleted @ '' flag as fallback. Expunge not implemented in this manager.'')
                    None)
             (\<lambda>_. bindE (ImapService_setFlags sourceMailbox id' [Deleted])
                (\<lambda>_. throwE (StandardizedError
                        (''Failed to move message to trash and fallback also problematic: ''
                           @ err_toString error)
                        500 (Some error))))))"

text \<open>
  The text of a buffer in base64 is kept as the bytes it encodes.
\<close>

datatype base64 = Base64 string

definition Manager_getAttachment :: "string \<Rightarrow> string \<Rightarrow> base64 option prog" where
  "Manager_getAttachment messageId attachmentId =
     bindE (ImapService_downloadAttachment ''INBOX'' messageId attachmentId)
       (\<lambda>st.
          case st of
            None \<Rightarrow> returnE None
          | Some (AsyncIterable chunks None) \<Rightarrow> returnE (Some (Base64 (concat chunks)))
          | Some (AsyncIterable chunks (Some e)) \<Rightarrow> throwE e
          | Some (NodeStream chunks None) \<Rightarrow> returnE (Some (Base64 (concat chunks)))
          | Some (NodeStream chunks (Some e)) \<Rightarrow> throwE e
          | Some OtherStream \<Rightarrow>
              throwE (JsError ''Unsupported stream type for attachment download''))"

subsection \<open>Drafts\<close>

definition DRAFTS_FOLDER :: string where
  "DRAFTS_FOLDER = ''Drafts''"


definition draftNotFound :: err where
  "draftNotFound = StandardizedError ''Draft not found or not a draft'' 404 None"

definition addresses :: "address list option \<Rightarrow> string list option" where
  "addresses x = map_option (map (\<lambda>t. orElse (addr_address t) [])) x"

definition Manager_getDraft :: "string \<Rightarrow> ParsedDraft prog" where
  "Manager_getDraft id' =
     bindE (ImapService_fetchMessage DRAFTS_FOLDER id')
       (\<lambda>message.
          case message of
            None \<Rightarrow> throwE draftNotFound
          | Some m \<Rightarrow>
              if Draft \<notin> set (flags m) then throwE draftNotFound
              else
                returnE \<lparr>d_id = toString (uid m),
                         d_to = addresses (env_to (envelope m)),
                         d_cc = addresses (env_cc (envelope m)),
                         d_bcc = addresses (env_bcc (envelope m)),
                         d_subject = env_subject (envelope m),
                         d_content = (if truthyS (textBody m) then textBody m else htmlBody m)\<rparr>)"



subsection \<open>Labels\<close>

record label_options =
  addLabels :: "string list"
  removeLabels :: "string list"

text \<open>\<^verbatim>\<open>if (c) await m;\<close>\<close>

definition whenE :: "bool \<Rightarrow> unit prog \<Rightarrow> unit prog" where
  "whenE c m = (if c then m else returnE ())"

text \<open>The body of the loop of \<^verbatim>\<open>modifyLabels\<close>, for one id.\<close>

definition modifyLabelsOf :: "label_options \<Rightarrow> string \<Rightarrow> unit prog" where
  "modifyLabelsOf options id' =
     (let mailbox = ''INBOX'' in
      bindE (whenE (''STARRED'' \<in> set (addLabels options))
               (ImapService_setFlags mailbox id' [Starred])) (\<lambda>_.
      bindE (whenE (''IMPORTANT'' \<in> set (addLabels options))
               (ImapService_setFlags mailbox id' [Flagged])) (\<lambda>_.
      bindE (whenE (''STARRED'' \<in> set (removeLabels options))
               (ImapService_unsetFlags mailbox id' [Starred])) (\<lambda>_.
      bindE (whenE (''IMPORTANT'' \<in> set (removeLabels options))
               (ImapService_unsetFlags mailbox id' [Flagged])) (\<lambda>_.
      if ''TRASH'' \<in> set (addLabels options) then
        ImapService_moveMessage mailbox id' ''Trash''
      else if ''INBOX'' \<in> set (removeLabels options) \<and> ''TRASH'' \<notin> set (addLabels options) then
        ImapService_moveMessage mailbox id' ''Archive''
      else returnE ())))))"

definition Manager_modifyLabels :: "string list \<Rightarrow> label_options \<Rightarrow> unit prog" where
  "Manager_modifyLabels ids options = forEach ids (modifyLabelsOf options)"

definition systemFlags :: "Label list" where
  "systemFlags =
     [\<lparr>label_id = Seen, label_name = ''Read'', label_type = System\<rparr>,
      \<lparr>label_id = Starred, label_name = ''Starred'', label_type = System\<rparr>,
      \<lparr>label_id = Flagged, label_name = ''Flagged'', label_type = System\<rparr>,
      \<lparr>label_id = Draft, label_name = ''Draft'', label_type = System\<rparr>,
      \<lparr>label_id = Deleted, label_name = ''Deleted'', label_type = System\<rparr>]"

definition Manager_getUserLabels :: "Label list prog" where
  "Manager_getUserLabels =
     bindE ImapService_listMailboxes
       (\<lambda>mailboxes.
          returnE (systemFlags @
            map (\<lambda>mb. \<lparr>label_id = mb_path mb, label_name = mb_name mb, label_type = Folder\<rparr>)
              mailboxes))"

definition Manager_getLabel :: "string \<Rightarrow> Label prog" where
  "Manager_getLabel id' =
     bindE Manager_getUserLabels
       (\<lambda>ls.
          case find (\<lambda>l. label_id l = id' \<and> label_type l = System) ls of
            Some systemLabel \<Rightarrow> returnE systemLabel
          | None \<Rightarrow>
              bindE ImapService_listMailboxes
                (\<lambda>mailboxes.
                   case find (\<lambda>mb. mb_path mb = id') mailboxes of
                     Some foundFolder \<Rightarrow>
                       returnE \<lparr>label_id = mb_path foundFolder, label_name = mb_name foundFolder,
                                label_type = Folder\<rparr>
                   | None \<Rightarrow>
                       throwE (StandardizedError
                         (''Label (folder or flag) '' @ [CHR 0x27] @ id' @ [CHR 0x27] @ '' not found'')
                         404 None)))"

definition Manager_createLabel :: "string \<Rightarrow> unit prog" where
  "Manager_createLabel name' =
     console ''warn''
       (''createLabel (createMailbox for '' @ name'
          @ '') not fully implemented in ImapService for this subtask.'') None"

definition Manager_updateLabel :: "string \<Rightarrow> string \<Rightarrow> unit prog" where
  "Manager_updateLabel id' name' =
     console ''warn''
       (''updateLabel (renameMailbox from '' @ id' @ '' to '' @ name'
          @ '') not fully implemented in ImapService for this subtask.'') None"

definition Manager_deleteLabel :: "string \<Rightarrow> unit prog" where
  "Manager_deleteLabel id' =
     console ''warn''
       (''deleteLabel (deleteMailbox '' @ id'
          @ '') not fully implemented in ImapService for this subtask.'') None"

subsection \<open>OAuth and other methods\<close>

definition Manager_getTokens :: "string \<Rightarrow> unit prog" where
  "Manager_getTokens code = throwE (StandardizedError ''OAuth not supported for direct IMAP/SMTP'' 501 None)"

definition Manager_revokeRefreshToken :: "string \<Rightarrow> bool prog" where
  "Manager_revokeRefreshToken refreshToken =
     bindE (console ''warn''
              ''revokeRefreshToken called on GenericMailManager, which is not OAuth-based.'' None)
       (\<lambda>_. returnE False)"

text \<open>The \<^verbatim>\<open>try\<close> block in the loop of \<^verbatim>\<open>count\<close> only warns and pushes a placeholder.\<close>

definition Manager_count :: "(string \<times> nat option) list prog" where
  "Manager_count =
     bindE ImapService_listMailboxes
       (\<lambda>mailboxes.
          bindE (forEach mailboxes
                   (\<lambda>mb. console ''warn''
                      (''count for '' @ mb_name mb
                         @ '': ImapService.status method not fully implemented. Returning placeholder.'')
                      None))
            (\<lambda>_. returnE (map (\<lambda>mb. (mb_name mb, Some 0)) mailboxes)))"

definition Manager_getUserInfo :: "auth_config \<Rightarrow> (string \<times> string \<times> string) prog" where
  "Manager_getUserInfo cfg =
     returnE (email cfg,
              orElse (auth_name cfg) (takeWhile (\<lambda>c. c \<noteq> CHR ''@'') (email cfg)),
              [])"

definition Manager_getEmailAliases :: "auth_config \<Rightarrow> (string \<times> string option \<times> bool) list prog" where
  "Manager_getEmailAliases cfg = returnE [(email cfg, auth_name cfg, True)]"

section \<open>Observing a call\<close>

definition result :: "'a prog \<Rightarrow> world \<Rightarrow> 'a outcome" where
  "result m w = fst (m w)"

definition events :: "'a prog \<Rightarrow> world \<Rightarrow> event list" where
  "events m w = fst (snd (m w))"

definition after :: "'a prog \<Rightarrow> world \<Rightarrow> world" where
  "after m w = snd (snd (m w))"

text \<open>A call with its result forgotten, to speak of operations of different types at once.\<close>

definition forget :: "'a prog \<Rightarrow> unit prog" where
  "forget m w =
     (case m w of
        (Resolved a, es, w1) \<Rightarrow> (Resolved (), es, w1)
      | (Rejected e, es, w1) \<Rightarrow> (Rejected e, es, w1)
      | (Pending, es, w1) \<Rightarrow> (Pending, es, w1))"

definition settled :: "'a outcome \<Rightarrow> bool" where
  "settled r = (case r of Pending \<Rightarrow> False | _ \<Rightarrow> True)"

definition resolved :: "'a outcome \<Rightarrow> bool" where
  "resolved r = (case r of Resolved a \<Rightarrow> True | _ \<Rightarrow> False)"

text \<open>The protocol handshake and authentication: \<^verbatim>\<open>client.connect()\<close> of ImapFlow.\<close>

definition isHandshake :: "event \<Rightarrow> bool" where
  "isHandshake e = (case e of Lib ImapConnect st \<Rightarrow> True | _ \<Rightarrow> False)"

definition alreadyConnected :: event where
  "alreadyConnected = Console ''log'' ''IMAP client is already connected or connecting.'' None"

definition attempting :: event where
  "attempting = Console ''log'' ''IMAP client not connected, attempting to connect...'' None"

text \<open>The mailbox operations of \<^verbatim>\<open>ImapService\<close>, and the mailbox each one locks.\<close>

datatype mailbox_op =
    ListMessages string "nat option" "nat option"
  | FetchMessage string string
  | DownloadAttachment string string string
  | SetFlags string string "string list"
  | UnsetFlags string string "string list"
  | MoveMessage string string string

fun run :: "mailbox_op \<Rightarrow> unit prog" where
  "run (ListMessages mailboxPath startSeq count) = forget (ImapService_listMessages mailboxPath startSeq count)"
| "run (FetchMessage mailboxPath uid') = forget (ImapService_fetchMessage mailboxPath uid')"
| "run (DownloadAttachment mailboxPath uid' partID') = forget (ImapService_downloadAttachment mailboxPath uid' partID')"
| "run (SetFlags mailboxPath uidOrRange fl) = forget (ImapService_setFlags mailboxPath uidOrRange fl)"
| "run (UnsetFlags mailboxPath uidOrRange fl) = forget (ImapService_unsetFlags mailboxPath uidOrRange fl)"
| "run (MoveMessage mailboxPath uid' dest) = forget (ImapService_moveMessage mailboxPath uid' dest)"

fun mailboxOf :: "mailbox_op \<Rightarrow> string" where
  "mailboxOf (ListMessages mailboxPath startSeq count) = mailboxPath"
| "mailboxOf (FetchMessage mailboxPath uid') = mailboxPath"
| "mailboxOf (DownloadAttachment mailboxPath uid' partID') = mailboxPath"
| "mailboxOf (SetFlags mailboxPath uidOrRange fl) = mailboxPath"
| "mailboxOf (UnsetFlags mailboxPath uidOrRange fl) = mailboxPath"
| "mailboxOf (MoveMessage mailboxPath uid' dest) = mailboxPath"

text \<open>The events that change who holds a mailbox lock: a lock obtained, a lock released.\<close>

definition isLockEvent :: "event \<Rightarrow> bool" where
  "isLockEvent e =
     (case e of
        Lib (GetMailboxLock path) Succeeded \<Rightarrow> True
      | Lib (LockRelease path) st \<Rightarrow> True
      | _ \<Rightarrow> False)"

definition lockEvents :: "event list \<Rightarrow> event list" where
  "lockEvents es = filter isLockEvent es"

definition acquire :: "string \<Rightarrow> event" where
  "acquire path = Lib (GetMailboxLock path) Succeeded"

definition release :: "string \<Rightarrow> event" where
  "release path = Lib (LockRelease path) Succeeded"

section \<open>Example environments\<close>

text \<open>
  A server that answers every call: a mailbox with the given messages (sequence numbers
  are positions from 1), a POP3 maildrop with the given raw messages.
\<close>

definition slice :: "nat \<Rightarrow> nat \<Rightarrow> 'a list \<Rightarrow> 'a list" where
  "slice a b xs = take (Suc b - a) (drop (a - 1) xs)"

definition serve :: "fetched list \<Rightarrow> string list \<Rightarrow> script" where
  "serve msgs maildrop =
     \<lparr>imap_connect = (\<lambda>t. Returns ()),
      imap_logout = (\<lambda>t. Returns ()),
      imap_list = (\<lambda>t. Returns [\<lparr>mb_path = ''INBOX'', mb_name = ''INBOX''\<rparr>]),
      imap_getMailboxLock = (\<lambda>t path. Returns ()),
      imap_status = (\<lambda>t path. Returns (Some (length msgs))),
      imap_fetch = (\<lambda>t r. case r of Range a b \<Rightarrow> Returns (slice a b msgs)),
      imap_fetchOne = (\<lambda>t u. Returns (find (\<lambda>m. toString (f_uid m) = u) msgs)),
      imap_download = (\<lambda>t u pid. Returns (Some (AsyncIterable [''hello''] None))),
      imap_messageFlagsAdd = (\<lambda>t u fl. Returns ()),
      imap_messageFlagsRemove = (\<lambda>t u fl. Returns ()),
      imap_messageMove = (\<lambda>t u dest. Returns True),
      pop3_login = (\<lambda>t. Returns (True, ''+OK'')),
      pop3_list = (\<lambda>t. Returns (True, length maildrop)),
      pop3_retr = (\<lambda>t n. case n of
                      Num k \<Rightarrow> if 1 \<le> k \<and> k \<le> length maildrop
                               then Returns (True, ''+OK'', maildrop ! (k - 1))
                               else Returns (False, ''-ERR no such message'', [])
                    | NotDecimal s \<Rightarrow> Returns (False, ''-ERR invalid argument'', [])),
      smtp_sendMail = (\<lambda>t options. Returns (''<1@example.org>'', ''250 OK'')),
      smtp_verify = (\<lambda>t. Returns True)\<rparr>"

definition message :: "nat \<Rightarrow> string list \<Rightarrow> fetched" where
  "message u fl =
     \<lparr>f_uid = u, f_flags = fl, f_envelope = emptyEnvelope, f_size = None,
      f_bodyStructure = None\<rparr>"

definition inbox3 :: "fetched list" where
  "inbox3 = [message 11 [Seen], message 12 [], message 15 [Draft]]"

definition maildrop3 :: "string list" where
  "maildrop3 = [''Subject: one'' @ [CR, LF, CR, LF] @ ''first'',
                ''Subject: two'' @ [CR, LF, CR, LF] @ ''second'',
                ''Subject: three'' @ [CR, LF, CR, LF] @ ''third'']"

text \<open>A manager over IMAP only, and one with POP3 configured, both freshly built.\<close>

definition imapWorld :: world where
  "imapWorld = snd (GenericMailManager (serve inbox3 maildrop3) ''mail.example.org'' False)"

definition pop3World :: world where
  "pop3World = snd (GenericMailManager (serve inbox3 maildrop3) ''mail.example.org'' True)"

definition only :: "(lib_call \<Rightarrow> bool) \<Rightarrow> event \<Rightarrow> bool" where
  "only C e = (case e of Lib c st \<Rightarrow> C c | Console l m ob \<Rightarrow> True)"

definition calls :: "(lib_call \<Rightarrow> bool) \<Rightarrow> 'a prog \<Rightarrow> bool" where
  "calls C m = (\<forall>w. list_all (only C) (events m w))"

definition keeps :: "(world \<Rightarrow> 'b) \<Rightarrow> 'a prog \<Rightarrow> bool" where
  "keeps f m = (\<forall>w. f (after m w) = f w)"

definition ignores :: "(world \<Rightarrow> 'b) \<Rightarrow> bool" where
  "ignores f =
     (\<forall>w c u s. f (w\<lparr>clock := c\<rparr>) = f w
        \<and> f (w\<lparr>clock := c, usable := u, cstate := s\<rparr>) = f w)"

definition inMailbox :: "lib_call \<Rightarrow> bool" where
  "inMailbox c =
     (case c of
        GetMailboxLock p \<Rightarrow> True | LockRelease p \<Rightarrow> True | ImapStatus p \<Rightarrow> True
      | ImapFetch r \<Rightarrow> True | ImapFetchOne u \<Rightarrow> True | ImapDownload u p \<Rightarrow> True
      | MessageFlagsAdd u fl \<Rightarrow> True | MessageFlagsRemove u fl \<Rightarrow> True | MessageMove u d \<Rightarrow> True
      | _ \<Rightarrow> False)"

named_theorems calls_intros
named_theorems keeps_intros

definition lockedWorld :: "string \<Rightarrow> world \<Rightarrow> world" where
  "lockedWorld path w = w\<lparr>clock := Suc (clock w), locks := path # locks w\<rparr>"

definition ignoresLocks :: "(world \<Rightarrow> 'b) \<Rightarrow> bool" where
  "ignoresLocks f = (\<forall>w l. f (w\<lparr>locks := l\<rparr>) = f w)"

definition lockCall :: "lib_call \<Rightarrow> bool" where
  "lockCall c = (case c of GetMailboxLock p \<Rightarrow> True | LockRelease p \<Rightarrow> True | _ \<Rightarrow> False)"

definition storeFails :: script where
  "storeFails =
     (serve inbox3 maildrop3)\<lparr>imap_messageFlagsAdd := (\<lambda>t u fl. Throws (LibError ''STORE failed''))\<rparr>"

definition storeFailsWorld :: world where
  "storeFailsWorld = snd (GenericMailManager storeFails ''mail.example.org'' False)"

definition resolvedValue :: "'a outcome \<Rightarrow> 'a option" where
  "resolvedValue r = (case r of Resolved a \<Rightarrow> Some a | _ \<Rightarrow> None)"

definition same :: "'a prog \<Rightarrow> 'a prog \<Rightarrow> world \<Rightarrow> bool" where
  "same m m' w = (m w = m' w)"

definition sessionOpens :: "world \<Rightarrow> bool" where
  "sessionOpens w =
     (pop3_connected w \<or>
      (case pop3_login (env w) (clock w) of
         Returns (status, rawdata) \<Rightarrow> status
       | Throws e \<Rightarrow> False
       | Silent \<Rightarrow> False))"

definition lateLogin :: script where
  "lateLogin =
     (serve inbox3 maildrop3)\<lparr>pop3_login :=
        (\<lambda>t. if t = 0 then Returns (False, ''-ERR busy'') else Returns (True, ''+OK''))\<rparr>"

definition lateWorld :: world where
  "lateWorld = snd (GenericMailManager lateLogin ''mail.example.org'' True)"

definition refusedLogin :: script where
  "refusedLogin =
     (serve inbox3 maildrop3)\<lparr>pop3_login := (\<lambda>t. Returns (False, ''-ERR denied''))\<rparr>"

definition refusedWorld :: world where
  "refusedWorld = snd (GenericMailManager refusedLogin ''mail.example.org'' True)"

definition commandClock :: "world \<Rightarrow> nat" where
  "commandClock w = (if pop3_connected w then clock w else Suc (clock w))"

definition rejected :: "'a outcome \<Rightarrow> bool" where
  "rejected r = (case r of Rejected e \<Rightarrow> True | _ \<Rightarrow> False)"

definition isFlagsAdd :: "event \<Rightarrow> bool" where
  "isFlagsAdd e = (case e of Lib (MessageFlagsAdd u fl) st \<Rightarrow> True | _ \<Rightarrow> False)"

definition deleteWarning :: "string \<Rightarrow> event" where
  "deleteWarning id' =
     Console ''warn''
       (''Could not move message '' @ id' @ '' to '' @ ''Trash'' @ ''. Setting ''
          @ Deleted @ '' flag as fallback. Expunge not implemented in this manager.'')
       None"

definition moveFails :: script where
  "moveFails =
     (serve inbox3 maildrop3)\<lparr>imap_messageMove := (\<lambda>t u d. Throws (LibError ''MOVE failed''))\<rparr>"

definition moveFailsWorld :: world where
  "moveFailsWorld = snd (GenericMailManager moveFails ''mail.example.org'' False)"

definition moveAndStoreFail :: script where
  "moveAndStoreFail =
     (serve inbox3 maildrop3)
       \<lparr>imap_messageFlagsAdd := (\<lambda>t u fl. Throws (LibError ''STORE failed'')),
        imap_messageMove := (\<lambda>t u d. Throws (LibError ''MOVE failed''))\<rparr>"

definition moveAndStoreFailWorld :: world where
  "moveAndStoreFailWorld = snd (GenericMailManager moveAndStoreFail ''mail.example.org'' False)"

definition draftMessage :: fetched where
  "draftMessage =
     (message 15 [Draft])\<lparr>f_bodyStructure :=
        Some (Part ''0'' ''multipart/alternative'' None None None
                [Part ''1'' ''text/plain'' None None None [],
                 Part ''2'' ''text/html'' None None None []])\<rparr>"

definition draftServer :: "string \<Rightarrow> script" where
  "draftServer plain =
     (serve [message 11 [Seen], draftMessage] maildrop3)\<lparr>imap_download :=
        (\<lambda>t u pid. Returns (Some (AsyncIterable
                          (if pid = ''1'' then [plain] else [''<p>html</p>'']) None)))\<rparr>"

definition draftWorld :: "string \<Rightarrow> world" where
  "draftWorld plain = snd (GenericMailManager (draftServer plain) ''mail.example.org'' False)"

definition serves :: "script \<Rightarrow> string \<Rightarrow> fetched list \<Rightarrow> bool" where
  "serves s mailbox msgs =
     (\<forall>t. imap_connect s t = Returns ()
        \<and> imap_getMailboxLock s t mailbox = Returns ()
        \<and> imap_status s t mailbox = Returns (Some (length msgs))
        \<and> (\<forall>a b. imap_fetch s t (Range a b) = Returns (slice a b msgs)))"

definition pageOf :: "list_params \<Rightarrow> BasicMessageInfo list \<Rightarrow> listing" where
  "pageOf params msgs =
     \<lparr>threads = map (\<lambda>msg. \<lparr>thread_id = toString (uid msg)\<rparr>) msgs,
      nextPageToken =
        (if length msgs > 0 \<and> truthy (maxResults params)
            \<and> length msgs = num (maxResults params)
         then Some (toString (uid (last msgs) + 1)) else None)\<rparr>"

text \<open>A library call that threw or was never answered.\<close>

definition failed :: "event \<Rightarrow> bool" where
  "failed e =
     (case e of
        Lib c Succeeded \<Rightarrow> False
      | Lib c (Threw err) \<Rightarrow> True
      | Lib c NoAnswer \<Rightarrow> True
      | Console l m ob \<Rightarrow> False)"

definition isMutation :: "lib_call \<Rightarrow> bool" where
  "isMutation c =
     (case c of
        MessageFlagsAdd u fl \<Rightarrow> True
      | MessageFlagsRemove u fl \<Rightarrow> True
      | MessageMove u d \<Rightarrow> True
      | _ \<Rightarrow> False)"

definition isLabelCall :: "lib_call \<Rightarrow> bool" where
  "isLabelCall c = (lockCall c \<or> isMutation c)"

text \<open>The calls on a mailbox among the events: locks, releases, flag stores and moves.\<close>

definition labelCalls :: "event list \<Rightarrow> lib_call list" where
  "labelCalls es =
     concat (map (\<lambda>e. case e of Lib c st \<Rightarrow> if isLabelCall c then [c] else []
                          | Console l m ob \<Rightarrow> []) es)"

text \<open>
  The label model as the specification words it, for one message id: what is done, in
  order, each step under the lock of INBOX.
\<close>

definition locked :: "lib_call \<Rightarrow> lib_call list" where
  "locked c = [GetMailboxLock ''INBOX'', c, LockRelease ''INBOX'']"

definition labelPlan :: "label_options \<Rightarrow> string \<Rightarrow> lib_call list" where
  "labelPlan options id' =
     (if ''STARRED'' \<in> set (addLabels options) then locked (MessageFlagsAdd id' [Starred]) else [])
     @ (if ''IMPORTANT'' \<in> set (addLabels options) then locked (MessageFlagsAdd id' [Flagged]) else [])
     @ (if ''STARRED'' \<in> set (removeLabels options) then locked (MessageFlagsRemove id' [Starred]) else [])
     @ (if ''IMPORTANT'' \<in> set (removeLabels options) then locked (MessageFlagsRemove id' [Flagged]) else [])
     @ (if ''TRASH'' \<in> set (addLabels options) then locked (MessageMove id' ''Trash'')
        else if ''INBOX'' \<in> set (removeLabels options) then locked (MessageMove id' ''Archive'')
        else [])"

text \<open>
  A program follows a plan of mailbox calls: when it returns it has made exactly these calls
  and none failed; at any time the flag stores and moves it has made are the first ones of
  the plan; and it returns when no library call fails.
\<close>

definition follows :: "lib_call list \<Rightarrow> 'a prog \<Rightarrow> bool" where
  "follows plan m =
     (\<forall>w. (resolved (result m w) \<longrightarrow>
             labelCalls (events m w) = plan \<and> \<not> list_ex failed (events m w))
        \<and> (\<exists>rest. filter isMutation plan = filter isMutation (labelCalls (events m w)) @ rest)
        \<and> (\<not> list_ex failed (events m w) \<longrightarrow> resolved (result m w)))"

definition isImapCall :: "lib_call \<Rightarrow> bool" where
  "isImapCall c = (inMailbox c \<or> c = ImapConnect \<or> c = ImapLogout \<or> c = ImapList)"


definition isSmtpCall :: "lib_call \<Rightarrow> bool" where
  "isSmtpCall c = (case c of SmtpSendMail options \<Rightarrow> True | SmtpVerify \<Rightarrow> True | _ \<Rightarrow> False)"




section \<open>Sequencing lemmas\<close>

lemma result_returnE [simp]: "result (returnE a) w = Resolved a"
  and events_returnE [simp]: "events (returnE a) w = []"
  and after_returnE [simp]: "after (returnE a) w = w"
  by (simp_all add: result_def events_def after_def returnE_def)

lemma result_throwE [simp]: "result (throwE e) w = Rejected e"
  and events_throwE [simp]: "events (throwE e) w = []"
  and after_throwE [simp]: "after (throwE e) w = w"
  by (simp_all add: result_def events_def after_def throwE_def)

lemma result_console [simp]: "result (console l m ob) w = Resolved ()"
  and events_console [simp]: "events (console l m ob) w = [Console l m ob]"
  and after_console [simp]: "after (console l m ob) w = w"
  by (simp_all add: result_def events_def after_def console_def)

lemma result_bindE:
  "result (bindE m f) w =
     (case result m w of
        Resolved a \<Rightarrow> result (f a) (after m w)
      | Rejected e \<Rightarrow> Rejected e
      | Pending \<Rightarrow> Pending)"
  by (simp add: result_def after_def bindE_def split: prod.splits outcome.splits)

lemma events_bindE:
  "events (bindE m f) w =
     (case result m w of
        Resolved a \<Rightarrow> events m w @ events (f a) (after m w)
      | Rejected e \<Rightarrow> events m w
      | Pending \<Rightarrow> events m w)"
  by (simp add: result_def events_def after_def bindE_def split: prod.splits outcome.splits)

lemma after_bindE:
  "after (bindE m f) w =
     (case result m w of
        Resolved a \<Rightarrow> after (f a) (after m w)
      | Rejected e \<Rightarrow> after m w
      | Pending \<Rightarrow> after m w)"
  by (simp add: result_def after_def bindE_def split: prod.splits outcome.splits)

lemma result_tryCatch:
  "result (tryCatch m h) w =
     (case result m w of
        Rejected e \<Rightarrow> result (h e) (after m w)
      | Resolved a \<Rightarrow> Resolved a
      | Pending \<Rightarrow> Pending)"
  by (simp add: result_def after_def tryCatch_def split: prod.splits outcome.splits)

lemma events_tryCatch:
  "events (tryCatch m h) w =
     (case result m w of
        Rejected e \<Rightarrow> events m w @ events (h e) (after m w)
      | Resolved a \<Rightarrow> events m w
      | Pending \<Rightarrow> events m w)"
  by (simp add: result_def events_def after_def tryCatch_def split: prod.splits outcome.splits)

lemma after_tryCatch:
  "after (tryCatch m h) w =
     (case result m w of
        Rejected e \<Rightarrow> after (h e) (after m w)
      | Resolved a \<Rightarrow> after m w
      | Pending \<Rightarrow> after m w)"
  by (simp add: result_def after_def tryCatch_def split: prod.splits outcome.splits)

lemma result_rethrow [simp]: "result (rethrow msg m) w = result m w"
  by (simp add: rethrow_def result_tryCatch result_bindE split: outcome.splits)

lemma events_rethrow:
  "events (rethrow msg m) w =
     (case result m w of
        Rejected e \<Rightarrow> events m w @ [Console ''error'' msg (Some e)]
      | Resolved a \<Rightarrow> events m w
      | Pending \<Rightarrow> events m w)"
  by (simp add: rethrow_def events_tryCatch events_bindE split: outcome.splits)

lemma after_rethrow [simp]: "after (rethrow msg m) w = after m w"
  by (simp add: rethrow_def after_tryCatch after_bindE split: outcome.splits)

lemma result_call:
  "result (call c answer) w =
     (case answer (env w) (clock w) of
        Returns a \<Rightarrow> Resolved a | Throws e \<Rightarrow> Rejected e | Silent \<Rightarrow> Pending)"
  by (simp add: result_def call_def Let_def split: response.splits)

lemma events_call:
  "events (call c answer) w =
     [Lib c (case answer (env w) (clock w) of
               Returns a \<Rightarrow> Succeeded | Throws e \<Rightarrow> Threw e | Silent \<Rightarrow> NoAnswer)]"
  by (simp add: events_def call_def Let_def split: response.splits)

lemma after_call [simp]: "after (call c answer) w = w\<lparr>clock := Suc (clock w)\<rparr>"
  by (simp add: after_def call_def Let_def split: response.splits)

lemma result_forget:
  "result (forget m) w =
     (case result m w of Resolved a \<Rightarrow> Resolved () | Rejected e \<Rightarrow> Rejected e | Pending \<Rightarrow> Pending)"
  by (simp add: result_def forget_def split: prod.splits outcome.splits)

lemma events_forget [simp]: "events (forget m) w = events m w"
  by (simp add: events_def forget_def split: prod.splits outcome.splits)

lemma after_forget [simp]: "after (forget m) w = after m w"
  by (simp add: after_def forget_def split: prod.splits outcome.splits)

lemma prog_eqI:
  "result m w = r \<Longrightarrow> events m w = es \<Longrightarrow> after m w = w1 \<Longrightarrow> m w = (r, es, w1)"
  by (auto simp: result_def events_def after_def)

section \<open>connect() is idempotent\<close>

lemma connect_usable:
  "usable w \<Longrightarrow> ImapService_connect w = (Resolved (), [alreadyConnected], w)"
  by (simp add: ImapService_connect_def console_def alreadyConnected_def)

lemma result_client_connect:
  "result client_connect w = result (call ImapConnect imap_connect) w"
  and events_client_connect:
  "events client_connect w = events (call ImapConnect imap_connect) w"
  by (simp_all add: result_def events_def client_connect_def split: prod.splits outcome.splits)

lemma after_client_connect:
  "after client_connect w =
     (case imap_connect (env w) (clock w) of
        Returns u \<Rightarrow> w\<lparr>clock := Suc (clock w), usable := True, cstate := AUTHENTICATED\<rparr>
      | Throws e \<Rightarrow> w\<lparr>clock := Suc (clock w)\<rparr>
      | Silent \<Rightarrow> w\<lparr>clock := Suc (clock w)\<rparr>)"
  by (simp add: after_def client_connect_def call_def Let_def split: response.splits)

lemma connect_resolved_usable:
  "result ImapService_connect w = Resolved u \<Longrightarrow> usable (after ImapService_connect w)"
  by (auto simp: result_def after_def ImapService_connect_def console_def tryCatch_def bindE_def
      client_connect_def call_def throwE_def Let_def split: response.splits if_splits)

lemma connect_handshake:
  "list_ex isHandshake (events ImapService_connect w) = (\<not> usable w)"
  by (auto simp: events_def ImapService_connect_def console_def tryCatch_def bindE_def
      client_connect_def call_def throwE_def Let_def isHandshake_def split: response.splits if_splits)

lemma connectIfNeeded_unfold:
  "connectIfNeeded w =
     (if \<not> usable w \<or> cstate w = LOGOUT
      then (case ImapService_connect w of (r, es, w1) \<Rightarrow> (r, attempting # es, w1))
      else (Resolved (), [], w))"
  by (simp add: connectIfNeeded_def bindE_def console_def returnE_def attempting_def
      split: prod.splits outcome.splits)

lemma connectIfNeeded_handshake:
  "list_ex isHandshake (events connectIfNeeded w) = (\<not> usable w)"
  using connect_handshake [of w]
  by (auto simp: connectIfNeeded_unfold events_def attempting_def isHandshake_def
      split: prod.splits)

lemma callsD: "calls C m \<Longrightarrow> list_all (only C) (events m w)"
  by (simp add: calls_def)

lemma keepsD: "keeps f m \<Longrightarrow> f (after m w) = f w"
  by (simp add: keeps_def)

lemma calls_basic [calls_intros, simp]:
  "calls C (returnE a)" "calls C (throwE e)" "calls C (console l m ob)"
  by (simp_all add: calls_def only_def)

lemma keeps_basic [keeps_intros, simp]:
  "keeps f (returnE a)" "keeps f (throwE e)" "keeps f (console l m ob)"
  by (simp_all add: keeps_def)

lemma calls_bindE [calls_intros]: "calls C m \<Longrightarrow> (\<And>a. calls C (f a)) \<Longrightarrow> calls C (bindE m f)"
  by (simp add: calls_def events_bindE split: outcome.splits)

lemma keeps_bindE [keeps_intros]: "keeps g m \<Longrightarrow> (\<And>a. keeps g (f a)) \<Longrightarrow> keeps g (bindE m f)"
  by (simp add: keeps_def after_bindE split: outcome.splits)

lemma calls_tryCatch [calls_intros]: "calls C m \<Longrightarrow> (\<And>e. calls C (h e)) \<Longrightarrow> calls C (tryCatch m h)"
  by (simp add: calls_def events_tryCatch split: outcome.splits)

lemma keeps_tryCatch [keeps_intros]: "keeps g m \<Longrightarrow> (\<And>e. keeps g (h e)) \<Longrightarrow> keeps g (tryCatch m h)"
  by (simp add: keeps_def after_tryCatch split: outcome.splits)

lemma calls_rethrow [calls_intros]: "calls C m \<Longrightarrow> calls C (rethrow msg m)"
  by (simp add: calls_def events_rethrow only_def split: outcome.splits)

lemma keeps_rethrow [keeps_intros]: "keeps g m \<Longrightarrow> keeps g (rethrow msg m)"
  by (simp add: keeps_def)

lemma calls_forget [calls_intros]: "calls C m \<Longrightarrow> calls C (forget m)"
  by (simp add: calls_def)

lemma keeps_forget [keeps_intros]: "keeps g m \<Longrightarrow> keeps g (forget m)"
  by (simp add: keeps_def)

lemma calls_call [calls_intros]: "C c \<Longrightarrow> calls C (call c answer)"
  by (simp add: calls_def events_call only_def)

lemma keeps_call [keeps_intros]: "ignores g \<Longrightarrow> keeps g (call c answer)"
  by (simp add: keeps_def ignores_def)

lemma calls_if [calls_intros]: "calls C a \<Longrightarrow> calls C b \<Longrightarrow> calls C (if c then a else b)"
  by simp

lemma keeps_if [keeps_intros]: "keeps g a \<Longrightarrow> keeps g b \<Longrightarrow> keeps g (if c then a else b)"
  by simp

lemma calls_option [calls_intros]:
  "calls C a \<Longrightarrow> (\<And>x. calls C (b x)) \<Longrightarrow> calls C (case ob of None \<Rightarrow> a | Some x \<Rightarrow> b x)"
  by (cases ob) simp_all

lemma keeps_option [keeps_intros]:
  "keeps g a \<Longrightarrow> (\<And>x. keeps g (b x)) \<Longrightarrow> keeps g (case ob of None \<Rightarrow> a | Some x \<Rightarrow> b x)"
  by (cases ob) simp_all

lemma calls_whenE [calls_intros]: "calls C m \<Longrightarrow> calls C (whenE c m)"
  by (simp add: whenE_def)

lemma keeps_whenE [keeps_intros]: "keeps g m \<Longrightarrow> keeps g (whenE c m)"
  by (simp add: whenE_def)

lemma calls_forEach [calls_intros]: "(\<And>x. calls C (f x)) \<Longrightarrow> calls C (forEach xs f)"
  by (induction xs) (auto intro: calls_bindE)

lemma keeps_forEach [keeps_intros]: "(\<And>x. keeps g (f x)) \<Longrightarrow> keeps g (forEach xs f)"
  by (induction xs) (auto intro: keeps_bindE)



lemma result_connectIfNeeded:
  "result connectIfNeeded w =
     (if \<not> usable w \<or> cstate w = LOGOUT then result ImapService_connect w else Resolved ())"
  and events_connectIfNeeded:
  "events connectIfNeeded w =
     (if \<not> usable w \<or> cstate w = LOGOUT then attempting # events ImapService_connect w else [])"
  and after_connectIfNeeded:
  "after connectIfNeeded w =
     (if \<not> usable w \<or> cstate w = LOGOUT then after ImapService_connect w else w)"
  by (simp_all add: connectIfNeeded_unfold result_def events_def after_def split: prod.splits)

lemma events_connect:
  "events ImapService_connect w =
     (if usable w then [alreadyConnected]
      else (case imap_connect (env w) (clock w) of
              Returns u \<Rightarrow> [Lib ImapConnect Succeeded,
                             Console ''log'' (''IMAP connected to '' @ imap_host w) None]
            | Throws e \<Rightarrow> [Lib ImapConnect (Threw e),
                            Console ''error'' (''IMAP connection error to '' @ imap_host w @ '':'') (Some e)]
            | Silent \<Rightarrow> [Lib ImapConnect NoAnswer]))"
  by (simp add: events_def ImapService_connect_def console_def tryCatch_def bindE_def
      client_connect_def call_def throwE_def Let_def alreadyConnected_def split: response.splits)

lemma result_connect:
  "result ImapService_connect w =
     (if usable w then Resolved ()
      else (case imap_connect (env w) (clock w) of
              Returns u \<Rightarrow> Resolved () | Throws e \<Rightarrow> Rejected e | Silent \<Rightarrow> Pending))"
  by (simp add: result_def ImapService_connect_def console_def tryCatch_def bindE_def
      client_connect_def call_def throwE_def Let_def split: response.splits)

lemma after_connect:
  "after ImapService_connect w =
     (if usable w then w
      else (case imap_connect (env w) (clock w) of
              Returns u \<Rightarrow> w\<lparr>clock := Suc (clock w), usable := True, cstate := AUTHENTICATED\<rparr>
            | Throws e \<Rightarrow> w\<lparr>clock := Suc (clock w)\<rparr>
            | Silent \<Rightarrow> w\<lparr>clock := Suc (clock w)\<rparr>))"
  by (simp add: after_def ImapService_connect_def console_def tryCatch_def bindE_def
      client_connect_def call_def throwE_def Let_def split: response.splits)

lemma calls_connect [calls_intros]: "C ImapConnect \<Longrightarrow> calls C ImapService_connect"
  by (simp add: calls_def events_connect only_def alreadyConnected_def split: response.splits)

lemma ignores_upd:
  "ignores g \<Longrightarrow> g (w\<lparr>clock := c, usable := u, cstate := s\<rparr>) = g w"
  "ignores g \<Longrightarrow> g (w\<lparr>clock := c\<rparr>) = g w"
  by (simp_all add: ignores_def)

lemma ignores_fields [simp]: "ignores locks" "ignores pop3Service"
  by (simp_all add: ignores_def)

lemma keeps_connect [keeps_intros]: "ignores g \<Longrightarrow> keeps g ImapService_connect"
  by (simp add: keeps_def after_connect ignores_upd split: response.splits)

lemma calls_connectIfNeeded [calls_intros]: "C ImapConnect \<Longrightarrow> calls C connectIfNeeded"
  using callsD [OF calls_connect, of C]
  by (simp add: calls_def events_connectIfNeeded only_def attempting_def)

lemma keeps_connectIfNeeded [keeps_intros]: "ignores g \<Longrightarrow> keeps g connectIfNeeded"
  using keepsD [OF keeps_connect, of g]
  by (simp add: keeps_def after_connectIfNeeded)




lemma calls_fetchRange [calls_intros]: "C (ImapFetch r) \<Longrightarrow> calls C (fetchRange r)"
  unfolding fetchRange_def by (intro calls_intros)

lemma keeps_fetchRange [keeps_intros]: "ignores g \<Longrightarrow> keeps g (fetchRange r)"
  unfolding fetchRange_def by (intro keeps_intros)

lemma calls_readContent [calls_intros]: "C (ImapDownload u p) \<Longrightarrow> calls C (readContent u p)"
  unfolding readContent_def
  by (intro calls_bindE calls_call) (simp_all split: option.splits stream.splits)

lemma keeps_readContent [keeps_intros]: "ignores g \<Longrightarrow> keeps g (readContent u p)"
  unfolding readContent_def
  by (intro keeps_bindE keeps_call) (simp_all split: option.splits stream.splits)

lemma calls_findBodyParts:
  "(\<And>x y. C (ImapDownload x y)) \<Longrightarrow> calls C (findBodyParts u p pre acc)"
  and calls_findBodyPartsEach:
  "(\<And>x y. C (ImapDownload x y)) \<Longrightarrow> calls C (findBodyPartsEach u ps pre acc)"
proof (induction u p pre acc and u ps pre acc rule: findBodyParts_findBodyPartsEach.induct)
  case (1 uid' pid ty disp fname sz children partIDPrefix acc)
  show ?case
    apply (simp only: findBodyParts.simps Let_def)
    apply (rule calls_bindE)
     apply (intro calls_intros 1(2))
    apply (rule 1(1))
        apply (rule refl)+
    apply (rule 1(2))
    done
next
  case (2 uid' partIDPrefix acc)
  then show ?case by simp
next
  case (3 uid' p ps partIDPrefix acc)
  show ?case
    apply (simp only: findBodyPartsEach.simps)
    apply (rule calls_bindE)
     apply (rule 3(1))
     apply (rule 3(3))
    apply (rule 3(2))
    apply (rule 3(3))
    done
qed

lemma keeps_findBodyParts:
  "ignores g \<Longrightarrow> keeps g (findBodyParts u p pre acc)"
  and keeps_findBodyPartsEach:
  "ignores g \<Longrightarrow> keeps g (findBodyPartsEach u ps pre acc)"
proof (induction u p pre acc and u ps pre acc rule: findBodyParts_findBodyPartsEach.induct)
  case (1 uid' pid ty disp fname sz children partIDPrefix acc)
  show ?case
    apply (simp only: findBodyParts.simps Let_def)
    apply (rule keeps_bindE)
     apply (intro keeps_intros 1(2))
    apply (rule 1(1))
        apply (rule refl)+
    apply (rule 1(2))
    done
next
  case (2 uid' partIDPrefix acc)
  then show ?case by simp
next
  case (3 uid' p ps partIDPrefix acc)
  show ?case
    apply (simp only: findBodyPartsEach.simps)
    apply (rule keeps_bindE)
     apply (rule 3(1))
     apply (rule 3(3))
    apply (rule 3(2))
    apply (rule 3(3))
    done
qed




lemma settled_simps [simp]:
  "settled (Resolved a)" "settled (Rejected e)" "\<not> settled Pending"
  by (simp_all add: settled_def)

lemma resolved_simps [simp]:
  "resolved (Resolved a)" "\<not> resolved (Rejected e)" "\<not> resolved Pending"
  by (simp_all add: resolved_def)

lemma result_withMailboxLock:
  "result (withMailboxLock path msg body) w =
     (case imap_getMailboxLock (env w) (clock w) path of
        Returns u \<Rightarrow> result body (lockedWorld path w)
      | Throws e \<Rightarrow> Rejected e
      | Silent \<Rightarrow> Pending)"
  by (simp add: result_def withMailboxLock_def client_getMailboxLock_def call_def Let_def
      lockedWorld_def rethrow_def tryCatch_def bindE_def console_def throwE_def lock_release_def
      split: response.splits prod.splits outcome.splits)

lemma events_withMailboxLock:
  "events (withMailboxLock path msg body) w =
     (case imap_getMailboxLock (env w) (clock w) path of
        Returns u \<Rightarrow>
          acquire path # events (rethrow msg body) (lockedWorld path w)
            @ (if settled (result body (lockedWorld path w)) then [release path] else [])
      | Throws e \<Rightarrow> [Lib (GetMailboxLock path) (Threw e), Console ''error'' msg (Some e)]
      | Silent \<Rightarrow> [Lib (GetMailboxLock path) NoAnswer])"
  apply (simp add: events_def result_def withMailboxLock_def client_getMailboxLock_def call_def Let_def
      lockedWorld_def lock_release_def acquire_def release_def settled_def
      split: response.splits prod.splits outcome.splits)
  apply (auto simp: rethrow_def tryCatch_def bindE_def console_def throwE_def split: prod.splits outcome.splits)
  done

lemma after_withMailboxLock:
  "after (withMailboxLock path msg body) w =
     (case imap_getMailboxLock (env w) (clock w) path of
        Returns u \<Rightarrow>
          (let w2 = after body (lockedWorld path w) in
           if settled (result body (lockedWorld path w))
           then w2\<lparr>locks := remove1 path (locks w2)\<rparr> else w2)
      | Throws e \<Rightarrow> w\<lparr>clock := Suc (clock w)\<rparr>
      | Silent \<Rightarrow> w\<lparr>clock := Suc (clock w)\<rparr>)"
  apply (simp add: after_def result_def withMailboxLock_def client_getMailboxLock_def call_def Let_def
      lockedWorld_def lock_release_def settled_def
      split: response.splits prod.splits outcome.splits)
  apply (auto simp: rethrow_def tryCatch_def bindE_def console_def throwE_def split: prod.splits outcome.splits)
  done

lemma calls_withMailboxLock [calls_intros]:
  "C (GetMailboxLock path) \<Longrightarrow> C (LockRelease path) \<Longrightarrow> calls C body
     \<Longrightarrow> calls C (withMailboxLock path msg body)"
  using callsD [OF calls_rethrow, of C body msg]
  by (simp add: calls_def events_withMailboxLock only_def acquire_def release_def
      split: response.splits)

lemma keeps_withMailboxLock [keeps_intros]:
  "ignores g \<Longrightarrow> ignoresLocks g \<Longrightarrow> keeps g body \<Longrightarrow> keeps g (withMailboxLock path msg body)"
proof -
  assume a: "ignores g" "ignoresLocks g" "keeps g body"
  have l: "\<And>w. g (lockedWorld path w) = g w"
  proof -
    fix w
    have "g (lockedWorld path w) = g ((w\<lparr>clock := Suc (clock w)\<rparr>)\<lparr>locks := path # locks w\<rparr>)"
      by (simp add: lockedWorld_def)
    also have "\<dots> = g (w\<lparr>clock := Suc (clock w)\<rparr>)"
      using a(2) unfolding ignoresLocks_def by blast
    finally show "g (lockedWorld path w) = g w" using a(1) by (simp add: ignores_upd)
  qed
  have r: "\<And>w l. g (w\<lparr>locks := l\<rparr>) = g w" using a(2) unfolding ignoresLocks_def by blast
  show ?thesis
    using a(3)
    by (simp add: keeps_def after_withMailboxLock Let_def l r ignores_upd[OF a(1)]
        split: response.splits)
qed

lemma ignoresLocks_pop3 [simp]: "ignoresLocks pop3Service"
  by (simp add: ignoresLocks_def)



lemma inMailbox_simps [simp]:
  "inMailbox (GetMailboxLock p)" "inMailbox (LockRelease p)" "inMailbox (ImapStatus p)"
  "inMailbox (ImapFetch r)" "inMailbox (ImapFetchOne u)" "inMailbox (ImapDownload u q)"
  "inMailbox (MessageFlagsAdd u fl)" "inMailbox (MessageFlagsRemove u fl)"
  "inMailbox (MessageMove u d)"
  "\<not> inMailbox ImapConnect" "\<not> inMailbox ImapLogout" "\<not> inMailbox ImapList"
  by (simp_all add: inMailbox_def)

lemma lockEvents_append [simp]: "lockEvents (xs @ ys) = lockEvents xs @ lockEvents ys"
  by (simp add: lockEvents_def)

lemma lockEvents_simps [simp]:
  "lockEvents [] = []"
  "lockEvents (Console l m ob # es) = lockEvents es"
  "lockEvents (acquire p # es) = acquire p # lockEvents es"
  "lockEvents (release p # es) = release p # lockEvents es"
  "lockEvents (Lib (GetMailboxLock p) (Threw e) # es) = lockEvents es"
  "lockEvents (Lib (GetMailboxLock p) NoAnswer # es) = lockEvents es"
  by (simp_all add: lockEvents_def isLockEvent_def acquire_def release_def)

lemma no_lockEvents: "list_all (only (\<lambda>c. \<not> lockCall c)) es \<Longrightarrow> lockEvents es = []"
  by (induction es)
    (auto simp: lockEvents_def isLockEvent_def only_def lockCall_def
      split: event.splits lib_call.splits status.splits)

lemma locks_lockedWorld [simp]: "locks (lockedWorld path w) = path # locks w"
  by (simp add: lockedWorld_def)

lemma settled_forget [simp]: "settled (result (forget m) w) = settled (result m w)"
  by (simp add: result_forget settled_def split: outcome.splits)

lemma withMailboxLock_balanced:
  assumes "keeps locks body" "calls (\<lambda>c. \<not> lockCall c) body"
  shows "(settled (result (withMailboxLock path msg body) w) \<longrightarrow>
            (lockEvents (events (withMailboxLock path msg body) w) = []
             \<or> lockEvents (events (withMailboxLock path msg body) w) = [acquire path, release path])
            \<and> locks (after (withMailboxLock path msg body) w) = locks w)
       \<and> (\<not> settled (result (withMailboxLock path msg body) w) \<longrightarrow>
            (lockEvents (events (withMailboxLock path msg body) w) = []
             \<or> lockEvents (events (withMailboxLock path msg body) w) = [acquire path]))"
  using keepsD [OF assms(1), of "lockedWorld path w"]
    no_lockEvents [OF callsD [OF calls_rethrow [OF assms(2)], of msg "lockedWorld path w"]]
  by (simp add: result_withMailboxLock events_withMailboxLock after_withMailboxLock Let_def
      split: response.splits)

lemma locked_shape:
  assumes "m = bindE connectIfNeeded (\<lambda>_. withMailboxLock path msg body)"
    and "keeps locks body" and "calls (\<lambda>c. \<not> lockCall c) body"
  shows "(settled (result m w) \<longrightarrow>
            (lockEvents (events m w) = [] \<or> lockEvents (events m w) = [acquire path, release path])
            \<and> locks (after m w) = locks w)
       \<and> (\<not> settled (result m w) \<longrightarrow>
            (lockEvents (events m w) = [] \<or> lockEvents (events m w) = [acquire path]))"
  unfolding assms(1)
  using withMailboxLock_balanced [OF assms(2,3), of path msg "after connectIfNeeded w"]
    keepsD [OF keeps_connectIfNeeded [OF ignores_fields(1)], of w]
    no_lockEvents [OF callsD [OF calls_connectIfNeeded, of "\<lambda>c. \<not> lockCall c" w]]
  by (simp add: result_bindE events_bindE after_bindE lockCall_def split: outcome.splits)

lemma balanced_listMessages:
  "(settled (result (ImapService_listMessages p a b) w) \<longrightarrow>
      (lockEvents (events (ImapService_listMessages p a b) w) = []
       \<or> lockEvents (events (ImapService_listMessages p a b) w) = [acquire p, release p])
      \<and> locks (after (ImapService_listMessages p a b) w) = locks w)
   \<and> (\<not> settled (result (ImapService_listMessages p a b) w) \<longrightarrow>
      (lockEvents (events (ImapService_listMessages p a b) w) = []
       \<or> lockEvents (events (ImapService_listMessages p a b) w) = [acquire p]))"
  by (rule locked_shape [OF ImapService_listMessages_def]; unfold Let_def;
      intro keeps_intros calls_intros; simp add: lockCall_def)

lemma balanced_fetchMessage:
  "(settled (result (ImapService_fetchMessage p u) w) \<longrightarrow>
      (lockEvents (events (ImapService_fetchMessage p u) w) = []
       \<or> lockEvents (events (ImapService_fetchMessage p u) w) = [acquire p, release p])
      \<and> locks (after (ImapService_fetchMessage p u) w) = locks w)
   \<and> (\<not> settled (result (ImapService_fetchMessage p u) w) \<longrightarrow>
      (lockEvents (events (ImapService_fetchMessage p u) w) = []
       \<or> lockEvents (events (ImapService_fetchMessage p u) w) = [acquire p]))"
  by (rule locked_shape [OF ImapService_fetchMessage_def]; unfold Let_def;
      intro keeps_intros calls_intros keeps_findBodyParts keeps_findBodyPartsEach
        calls_findBodyParts calls_findBodyPartsEach;
      simp add: lockCall_def)

lemma balanced_downloadAttachment:
  "(settled (result (ImapService_downloadAttachment p u q) w) \<longrightarrow>
      (lockEvents (events (ImapService_downloadAttachment p u q) w) = []
       \<or> lockEvents (events (ImapService_downloadAttachment p u q) w) = [acquire p, release p])
      \<and> locks (after (ImapService_downloadAttachment p u q) w) = locks w)
   \<and> (\<not> settled (result (ImapService_downloadAttachment p u q) w) \<longrightarrow>
      (lockEvents (events (ImapService_downloadAttachment p u q) w) = []
       \<or> lockEvents (events (ImapService_downloadAttachment p u q) w) = [acquire p]))"
  by (rule locked_shape [OF ImapService_downloadAttachment_def];
      intro keeps_intros calls_intros; simp add: lockCall_def)

lemma balanced_setFlags:
  "(settled (result (ImapService_setFlags p u fl) w) \<longrightarrow>
      (lockEvents (events (ImapService_setFlags p u fl) w) = []
       \<or> lockEvents (events (ImapService_setFlags p u fl) w) = [acquire p, release p])
      \<and> locks (after (ImapService_setFlags p u fl) w) = locks w)
   \<and> (\<not> settled (result (ImapService_setFlags p u fl) w) \<longrightarrow>
      (lockEvents (events (ImapService_setFlags p u fl) w) = []
       \<or> lockEvents (events (ImapService_setFlags p u fl) w) = [acquire p]))"
  by (rule locked_shape [OF ImapService_setFlags_def];
      intro keeps_intros calls_intros; simp add: lockCall_def)

lemma balanced_unsetFlags:
  "(settled (result (ImapService_unsetFlags p u fl) w) \<longrightarrow>
      (lockEvents (events (ImapService_unsetFlags p u fl) w) = []
       \<or> lockEvents (events (ImapService_unsetFlags p u fl) w) = [acquire p, release p])
      \<and> locks (after (ImapService_unsetFlags p u fl) w) = locks w)
   \<and> (\<not> settled (result (ImapService_unsetFlags p u fl) w) \<longrightarrow>
      (lockEvents (events (ImapService_unsetFlags p u fl) w) = []
       \<or> lockEvents (events (ImapService_unsetFlags p u fl) w) = [acquire p]))"
  by (rule locked_shape [OF ImapService_unsetFlags_def];
      intro keeps_intros calls_intros; simp add: lockCall_def)

lemma balanced_moveMessage:
  "(settled (result (ImapService_moveMessage p u d) w) \<longrightarrow>
      (lockEvents (events (ImapService_moveMessage p u d) w) = []
       \<or> lockEvents (events (ImapService_moveMessage p u d) w) = [acquire p, release p])
      \<and> locks (after (ImapService_moveMessage p u d) w) = locks w)
   \<and> (\<not> settled (result (ImapService_moveMessage p u d) w) \<longrightarrow>
      (lockEvents (events (ImapService_moveMessage p u d) w) = []
       \<or> lockEvents (events (ImapService_moveMessage p u d) w) = [acquire p]))"
  by (rule locked_shape [OF ImapService_moveMessage_def];
      intro keeps_intros calls_intros; simp add: lockCall_def)

text \<open>
  C2. Every mailbox operation of the IMAP service (listMessages, fetchMessage,
  downloadAttachment, setFlags, unsetFlags, moveMessage), in every state and whatever the
  libraries answer: when the call completes (resolved or rejected), either no lock was
  obtained, or the lock of its mailbox was obtained once and released once after it,
  and the locks held are those held before the call. While a call has not completed, a
  lock obtained has not been released more than once (it has not been released at all).
\<close>

theorem lock_released_exactly_once:
  "(settled (result (run op) w) \<longrightarrow>
      (lockEvents (events (run op) w) = []
       \<or> lockEvents (events (run op) w) = [acquire (mailboxOf op), release (mailboxOf op)])
      \<and> locks (after (run op) w) = locks w)
   \<and> (\<not> settled (result (run op) w) \<longrightarrow>
      (lockEvents (events (run op) w) = []
       \<or> lockEvents (events (run op) w) = [acquire (mailboxOf op)]))"
proof (cases op)
  case (ListMessages mailboxPath startSeq count)
  show ?thesis
    unfolding ListMessages run.simps mailboxOf.simps settled_forget events_forget after_forget
    by (rule balanced_listMessages)
next
  case (FetchMessage mailboxPath uid')
  show ?thesis
    unfolding FetchMessage run.simps mailboxOf.simps settled_forget events_forget after_forget
    by (rule balanced_fetchMessage)
next
  case (DownloadAttachment mailboxPath uid' partID')
  show ?thesis
    unfolding DownloadAttachment run.simps mailboxOf.simps settled_forget events_forget after_forget
    by (rule balanced_downloadAttachment)
next
  case (SetFlags mailboxPath uidOrRange fl)
  show ?thesis
    unfolding SetFlags run.simps mailboxOf.simps settled_forget events_forget after_forget
    by (rule balanced_setFlags)
next
  case (UnsetFlags mailboxPath uidOrRange fl)
  show ?thesis
    unfolding UnsetFlags run.simps mailboxOf.simps settled_forget events_forget after_forget
    by (rule balanced_unsetFlags)
next
  case (MoveMessage mailboxPath uid' dest)
  show ?thesis
    unfolding MoveMessage run.simps mailboxOf.simps settled_forget events_forget after_forget
    by (rule balanced_moveMessage)
qed

text \<open>
  The fault-injected case: \<^verbatim>\<open>messageFlagsAdd\<close> throws after the lock was obtained; the
  call is rejected, and the lock was released once and is free afterwards.
\<close>

theorem lock_released_exactly_once_witness:
  "result (run (SetFlags ''INBOX'' ''11'' [Seen])) storeFailsWorld = Rejected (LibError ''STORE failed'')
   \<and> settled (result (run (SetFlags ''INBOX'' ''11'' [Seen])) storeFailsWorld)
   \<and> lockEvents (events (run (SetFlags ''INBOX'' ''11'' [Seen])) storeFailsWorld)
       = [acquire ''INBOX'', release ''INBOX'']
   \<and> locks (after (run (SetFlags ''INBOX'' ''11'' [Seen])) storeFailsWorld) = locks storeFailsWorld"
proof -
  have r: "result (run (SetFlags ''INBOX'' ''11'' [Seen])) storeFailsWorld = Rejected (LibError ''STORE failed'')"
    by code_simp
  have ne: "lockEvents (events (run (SetFlags ''INBOX'' ''11'' [Seen])) storeFailsWorld) \<noteq> []"
    by code_simp
  have s: "settled (result (run (SetFlags ''INBOX'' ''11'' [Seen])) storeFailsWorld)"
    unfolding r by simp
  show ?thesis
    using lock_released_exactly_once [of "SetFlags ''INBOX'' ''11'' [Seen]" storeFailsWorld] r s ne
    unfolding mailboxOf.simps by blast
qed


lemma no_handshake:
  "list_all (only (\<lambda>c. c \<noteq> ImapConnect)) es \<Longrightarrow> \<not> list_ex isHandshake es"
  by (induction es) (auto simp: only_def isHandshake_def split: event.splits lib_call.splits)

lemma handshake_shape:
  assumes "m = bindE connectIfNeeded (\<lambda>_. rest)" and "calls (\<lambda>c. c \<noteq> ImapConnect) rest"
  shows "list_ex isHandshake (events m w) = (\<not> usable w)"
  unfolding assms(1)
  using no_handshake [OF callsD [OF assms(2), of "after connectIfNeeded w"]]
    connectIfNeeded_handshake [of w]
  by (simp add: events_bindE split: outcome.splits)

lemma handshake_run: "list_ex isHandshake (events (run op) w) = (\<not> usable w)"
proof (cases op)
  case (ListMessages mailboxPath startSeq count)
  show ?thesis
    unfolding ListMessages run.simps events_forget
    by (rule handshake_shape [OF ImapService_listMessages_def]; unfold Let_def;
        intro calls_intros; simp)
next
  case (FetchMessage mailboxPath uid')
  show ?thesis
    unfolding FetchMessage run.simps events_forget
    by (rule handshake_shape [OF ImapService_fetchMessage_def]; unfold Let_def;
        intro calls_intros calls_findBodyParts calls_findBodyPartsEach; simp)
next
  case (DownloadAttachment mailboxPath uid' partID')
  show ?thesis
    unfolding DownloadAttachment run.simps events_forget
    by (rule handshake_shape [OF ImapService_downloadAttachment_def]; intro calls_intros; simp)
next
  case (SetFlags mailboxPath uidOrRange fl)
  show ?thesis
    unfolding SetFlags run.simps events_forget
    by (rule handshake_shape [OF ImapService_setFlags_def]; intro calls_intros; simp)
next
  case (UnsetFlags mailboxPath uidOrRange fl)
  show ?thesis
    unfolding UnsetFlags run.simps events_forget
    by (rule handshake_shape [OF ImapService_unsetFlags_def]; intro calls_intros; simp)
next
  case (MoveMessage mailboxPath uid' dest)
  show ?thesis
    unfolding MoveMessage run.simps events_forget
    by (rule handshake_shape [OF ImapService_moveMessage_def]; intro calls_intros; simp)
qed

lemma handshake_listMailboxes:
  "list_ex isHandshake (events ImapService_listMailboxes w) = (\<not> usable w)"
  by (rule handshake_shape [OF ImapService_listMailboxes_def]; intro calls_intros; simp)

text \<open>
  C6. \<^verbatim>\<open>connect()\<close> on a usable client returns at once: it logs one line, calls no
  library function and leaves the state as it is. After a \<^verbatim>\<open>connect()\<close> that resolved, a
  second \<^verbatim>\<open>connect()\<close> is this no-op. \<^verbatim>\<open>connect()\<close> performs the handshake exactly when
  the client is not usable. \<^verbatim>\<open>connectIfNeeded\<close> calls \<^verbatim>\<open>connect()\<close> exactly when the client
  is not usable or in state LOGOUT, and does nothing otherwise. Every other operation of
  the service performs a handshake exactly when it starts on a client that is not usable;
  so none does after a \<^verbatim>\<open>connect()\<close> that resolved.
\<close>

theorem connect_idempotent:
  "(usable w \<longrightarrow> ImapService_connect w = (Resolved (), [alreadyConnected], w))
 \<and> (resolved (result ImapService_connect w) \<longrightarrow>
       ImapService_connect (after ImapService_connect w)
         = (Resolved (), [alreadyConnected], after ImapService_connect w))
 \<and> list_ex isHandshake (events ImapService_connect w) = (\<not> usable w)
 \<and> connectIfNeeded w =
       (if \<not> usable w \<or> cstate w = LOGOUT
        then (case ImapService_connect w of (r, es, w1) \<Rightarrow> (r, attempting # es, w1))
        else (Resolved (), [], w))
 \<and> list_ex isHandshake (events (run op) w) = (\<not> usable w)
 \<and> list_ex isHandshake (events ImapService_listMailboxes w) = (\<not> usable w)
 \<and> (resolved (result ImapService_connect w) \<longrightarrow>
       \<not> list_ex isHandshake (events (run op) (after ImapService_connect w))
     \<and> \<not> list_ex isHandshake (events ImapService_listMailboxes (after ImapService_connect w)))"
proof -
  have u: "resolved (result ImapService_connect w) \<Longrightarrow> usable (after ImapService_connect w)"
    using connect_resolved_usable [of w] by (cases "result ImapService_connect w") simp_all
  show ?thesis
    using u connect_usable [of w] connect_usable [of "after ImapService_connect w"]
      connect_handshake [of w] connectIfNeeded_unfold [of w] handshake_run [of op w]
      handshake_listMailboxes [of w] handshake_run [of op "after ImapService_connect w"]
      handshake_listMailboxes [of "after ImapService_connect w"]
    by blast
qed

theorem connect_idempotent_witness:
  "\<not> usable imapWorld
   \<and> resolved (result ImapService_connect imapWorld)
   \<and> list_ex isHandshake (events ImapService_connect imapWorld)
   \<and> usable (after ImapService_connect imapWorld)
   \<and> ImapService_connect (after ImapService_connect imapWorld)
        = (Resolved (), [alreadyConnected], after ImapService_connect imapWorld)
   \<and> \<not> list_ex isHandshake
          (events (run (SetFlags ''INBOX'' ''11'' [Seen])) (after ImapService_connect imapWorld))"
proof -
  have a: "\<not> usable imapWorld" by code_simp
  have b: "resolved (result ImapService_connect imapWorld)" by code_simp
  have c: "usable (after ImapService_connect imapWorld)" by code_simp
  show ?thesis
    using connect_idempotent [of imapWorld "SetFlags ''INBOX'' ''11'' [Seen]"] a b c by blast
qed

lemma pushNumbers_upt: "pushNumbers i n acc = acc @ [Suc i..<Suc n]"
proof (induction i n acc rule: pushNumbers.induct)
  case (1 i msgcount numbers)
  show ?case
  proof (cases "i < msgcount")
    case True
    then have "pushNumbers i msgcount numbers = pushNumbers (i + 1) msgcount (numbers @ [i + 1])"
      by (subst pushNumbers.simps) simp
    also have "\<dots> = (numbers @ [i + 1]) @ [Suc (i + 1)..<Suc msgcount]"
      using 1 True by simp
    also have "\<dots> = numbers @ [Suc i..<Suc msgcount]"
      using True by (simp add: upt_conv_Cons)
    finally show ?thesis .
  next
    case False
    then show ?thesis by (subst pushNumbers.simps) simp
  qed
qed

lemma result_command [simp]: "result (command c answer) w = Resolved (answer (env w) (clock w))"
  and events_command:
  "events (command c answer) w =
     [Lib c (case answer (env w) (clock w) of
               Returns a \<Rightarrow> Succeeded | Throws e \<Rightarrow> Threw e | Silent \<Rightarrow> NoAnswer)]"
  and after_command [simp]: "after (command c answer) w = w\<lparr>clock := Suc (clock w)\<rparr>"
  by (simp_all add: result_def events_def after_def command_def Let_def)

lemma executor_unfold:
  assumes "before w = (r1, es1, w1)" and "cmd w1 = (r2, es2, w2)"
  shows "executor before cmd onEvent w =
     (case r1 of
        Resolved u \<Rightarrow>
          (case r2 of
             Resolved (Returns b) \<Rightarrow>
               (fst (onEvent b w2), es1 @ es2 @ fst (snd (onEvent b w2)), snd (snd (onEvent b w2)))
           | _ \<Rightarrow> (Pending, es1 @ es2, w2))
      | _ \<Rightarrow> (Pending, es1, w1))"
proof (cases r1)
  case (Resolved u)
  show ?thesis
  proof (cases r2)
    case (Resolved resp)
    show ?thesis
      by (cases resp)
        (simp_all add: executor_def assms \<open>r1 = Resolved u\<close> \<open>r2 = Resolved resp\<close>
          split: prod.splits)
  qed (simp_all add: executor_def assms \<open>r1 = Resolved u\<close>)
qed (simp_all add: executor_def assms)

lemma result_executor:
  "result (executor before cmd onEvent) w =
     (case result before w of
        Resolved u \<Rightarrow>
          (case result cmd (after before w) of
             Resolved (Returns b) \<Rightarrow> result (onEvent b) (after cmd (after before w))
           | _ \<Rightarrow> Pending)
      | _ \<Rightarrow> Pending)"
proof -
  obtain r1 es1 w1 where b: "before w = (r1, es1, w1)" by (cases "before w")
  obtain r2 es2 w2 where c: "cmd w1 = (r2, es2, w2)" by (cases "cmd w1")
  show ?thesis
    by (simp add: result_def after_def executor_unfold [where before=before and cmd=cmd and onEvent=onEvent, OF b c] b c
        split: outcome.splits response.splits)
qed

lemma events_executor:
  "events (executor before cmd onEvent) w =
     (case result before w of
        Resolved u \<Rightarrow>
          events before w @ events cmd (after before w) @
          (case result cmd (after before w) of
             Resolved (Returns b) \<Rightarrow> events (onEvent b) (after cmd (after before w))
           | _ \<Rightarrow> [])
      | _ \<Rightarrow> events before w)"
proof -
  obtain r1 es1 w1 where b: "before w = (r1, es1, w1)" by (cases "before w")
  obtain r2 es2 w2 where c: "cmd w1 = (r2, es2, w2)" by (cases "cmd w1")
  show ?thesis
    by (simp add: result_def after_def events_def executor_unfold [where before=before and cmd=cmd and onEvent=onEvent, OF b c] b c
        split: outcome.splits response.splits)
qed

lemma after_executor:
  "after (executor before cmd onEvent) w =
     (case result before w of
        Resolved u \<Rightarrow>
          (case result cmd (after before w) of
             Resolved (Returns b) \<Rightarrow> after (onEvent b) (after cmd (after before w))
           | _ \<Rightarrow> after cmd (after before w))
      | _ \<Rightarrow> after before w)"
proof -
  obtain r1 es1 w1 where b: "before w = (r1, es1, w1)" by (cases "before w")
  obtain r2 es2 w2 where c: "cmd w1 = (r2, es2, w2)" by (cases "cmd w1")
  show ?thesis
    by (simp add: result_def after_def executor_unfold [where before=before and cmd=cmd and onEvent=onEvent, OF b c] b c
        split: outcome.splits response.splits)
qed

lemma pop3_connectIfNeeded_connected:
  assumes "pop3_connected w"
  shows "result Pop3Service_connectIfNeeded w = Resolved ()"
    and "events Pop3Service_connectIfNeeded w = []"
    and "after Pop3Service_connectIfNeeded w = w"
  using assms
  by (simp_all add: Pop3Service_connectIfNeeded_def returnE_def result_def events_def after_def)

lemma pop3_listMessages_unfold:
  "pop3_client w \<Longrightarrow>
   Pop3Service_listMessages w =
     executor Pop3Service_connectIfNeeded (command Pop3List pop3_list)
       (\<lambda>(status, msgcount).
          if status then returnE (pushNumbers 0 msgcount [])
          else throwE (JsError ''POP3 LIST failed'')) w"
  by (simp add: Pop3Service_listMessages_def)

lemma pop3_listMessages_result:
  assumes "pop3_client w" "pop3_connected w"
  shows "result Pop3Service_listMessages w =
           (case pop3_list (env w) (clock w) of
              Returns (status, msgcount) \<Rightarrow>
                if status then Resolved [1..<Suc msgcount] else Rejected (JsError ''POP3 LIST failed'')
            | Throws e \<Rightarrow> Pending
            | Silent \<Rightarrow> Pending)"
proof -
  have "result Pop3Service_listMessages w =
        result (executor Pop3Service_connectIfNeeded (command Pop3List pop3_list)
          (\<lambda>(status, msgcount).
             if status then returnE (pushNumbers 0 msgcount [])
             else throwE (JsError ''POP3 LIST failed''))) w"
    by (simp only: result_def pop3_listMessages_unfold [OF assms(1)])
  also have "\<dots> =
           (case pop3_list (env w) (clock w) of
              Returns (status, msgcount) \<Rightarrow>
                if status then Resolved [1..<Suc msgcount] else Rejected (JsError ''POP3 LIST failed'')
            | Throws e \<Rightarrow> Pending
            | Silent \<Rightarrow> Pending)"
    by (cases "pop3_list (env w) (clock w)")
      (auto simp: result_executor pop3_connectIfNeeded_connected [OF assms(2)] pushNumbers_upt)
  finally show ?thesis .
qed

lemma pop3_listMessages_events:
  assumes "pop3_client w" "pop3_connected w"
  shows "events Pop3Service_listMessages w =
           [Lib Pop3List (case pop3_list (env w) (clock w) of
               Returns a \<Rightarrow> Succeeded | Throws e \<Rightarrow> Threw e | Silent \<Rightarrow> NoAnswer)]"
proof -
  have "events Pop3Service_listMessages w =
        events (executor Pop3Service_connectIfNeeded (command Pop3List pop3_list)
          (\<lambda>(status, msgcount).
             if status then returnE (pushNumbers 0 msgcount [])
             else throwE (JsError ''POP3 LIST failed''))) w"
    by (simp only: events_def pop3_listMessages_unfold [OF assms(1)])
  also have "\<dots> =
           [Lib Pop3List (case pop3_list (env w) (clock w) of
               Returns a \<Rightarrow> Succeeded | Throws e \<Rightarrow> Threw e | Silent \<Rightarrow> NoAnswer)]"
    by (cases "pop3_list (env w) (clock w)")
      (auto simp: events_executor events_command pop3_connectIfNeeded_connected [OF assms(2)])
  finally show ?thesis .
qed

text \<open>
  C9. On a session that is connected (the client exists and \<^verbatim>\<open>connected\<close> is true):
  when the \<^verbatim>\<open>list\<close> event reports success and N messages, \<^verbatim>\<open>listMessages()\<close> resolves
  with the list 1, 2, ..., N, whose length is N; when it reports failure, the promise is
  rejected with the error \<^verbatim>\<open>POP3 LIST failed\<close>. In both cases the only library call is
  the LIST command.
\<close>

theorem pop3_listMessages_numbers:
  "pop3_client w \<and> pop3_connected w \<longrightarrow>
     (pop3_list (env w) (clock w) = Returns (True, N) \<longrightarrow>
        result Pop3Service_listMessages w = Resolved [1..<Suc N]
        \<and> length [1..<Suc N] = N
        \<and> events Pop3Service_listMessages w = [Lib Pop3List Succeeded])
   \<and> (pop3_list (env w) (clock w) = Returns (False, k) \<longrightarrow>
        result Pop3Service_listMessages w = Rejected (JsError ''POP3 LIST failed'')
        \<and> events Pop3Service_listMessages w = [Lib Pop3List Succeeded])"
  by (simp add: pop3_listMessages_result pop3_listMessages_events)

theorem pop3_listMessages_numbers_witness:
  "pop3_client pop3World \<and> pop3_connected pop3World
   \<and> pop3_list (env pop3World) (clock pop3World) = Returns (True, 3)
   \<and> result Pop3Service_listMessages pop3World = Resolved [1, 2, 3]"
proof -
  have a: "pop3_client pop3World" by code_simp
  have b: "pop3_connected pop3World" by code_simp
  have c: "pop3_list (env pop3World) (clock pop3World) = Returns (True, 3)" by code_simp
  have d: "[1..<Suc 3] = [1, 2, 3::nat]" by code_simp
  show ?thesis
    using pop3_listMessages_numbers [of pop3World 3] a b c d by simp
qed

lemma result_cong: "same m m' w \<Longrightarrow> result m w = result m' w"
  and events_cong: "same m m' w \<Longrightarrow> events m w = events m' w"
  and after_cong: "same m m' w \<Longrightarrow> after m w = after m' w"
  by (simp_all add: same_def result_def events_def after_def)

lemma pop3_fetchMessage_unfold:
  "pop3_client w \<Longrightarrow>
   Pop3Service_fetchMessage n w =
     executor Pop3Service_connectIfNeeded (command (Pop3Retr n) (\<lambda>s t. pop3_retr s t n))
       (\<lambda>(status, rawdata, dataBuffer).
          if status then returnE dataBuffer
          else throwE (JsError (''POP3 RETR failed: '' @ rawdata))) w"
  by (simp add: Pop3Service_fetchMessage_def)

lemma pop3_fetchMessage_result:
  assumes "pop3_client w" "pop3_connected w"
  shows "result (Pop3Service_fetchMessage n) w =
           (case pop3_retr (env w) (clock w) n of
              Returns (status, rawdata, dataBuffer) \<Rightarrow>
                if status then Resolved dataBuffer
                else Rejected (JsError (''POP3 RETR failed: '' @ rawdata))
            | Throws e \<Rightarrow> Pending
            | Silent \<Rightarrow> Pending)"
proof -
  have "result (Pop3Service_fetchMessage n) w =
        result (executor Pop3Service_connectIfNeeded
          (command (Pop3Retr n) (\<lambda>s t. pop3_retr s t n))
          (\<lambda>(status, rawdata, dataBuffer).
             if status then returnE dataBuffer
             else throwE (JsError (''POP3 RETR failed: '' @ rawdata)))) w"
    by (simp only: result_def pop3_fetchMessage_unfold [OF assms(1)])
  also have "\<dots> =
           (case pop3_retr (env w) (clock w) n of
              Returns (status, rawdata, dataBuffer) \<Rightarrow>
                if status then Resolved dataBuffer
                else Rejected (JsError (''POP3 RETR failed: '' @ rawdata))
            | Throws e \<Rightarrow> Pending
            | Silent \<Rightarrow> Pending)"
    by (cases "pop3_retr (env w) (clock w) n")
      (auto simp: result_executor pop3_connectIfNeeded_connected [OF assms(2)])
  finally show ?thesis .
qed

lemma Manager_get_pop3:
  "pop3Service w = Some p \<Longrightarrow>
   same (Manager_get id')
     (bindE (tryCatch (bindE (Pop3Service_fetchMessage (Number id')) (\<lambda>raw. returnE (Some raw)))
              (\<lambda>_. returnE None))
       (\<lambda>message.
          if \<not> truthyS message then throwE notFound
          else
            returnE \<lparr>messages = [parsePop3Message (orElse message []) id'],
                     latest = parsePop3Message (orElse message []) id', hasUnread = True,
                     totalReplies = 0, labels = []\<rparr>)) w"
  unfolding same_def Manager_get_def Let_def by simp

lemma Manager_get_pop3_result:
  assumes "pop3Service w = Some p"
  shows "result (Manager_get id') w =
     (case result (Pop3Service_fetchMessage (Number id')) w of
        Resolved raw \<Rightarrow>
          if raw = [] then Rejected notFound
          else Resolved \<lparr>messages = [parsePop3Message raw id'],
                          latest = parsePop3Message raw id', hasUnread = True,
                          totalReplies = 0, labels = []\<rparr>
      | Rejected e \<Rightarrow> Rejected notFound
      | Pending \<Rightarrow> Pending)"
  unfolding result_cong [OF Manager_get_pop3 [OF assms]]
  by (simp add: result_bindE result_tryCatch truthyS_def orElse_def split: outcome.splits)

lemma Manager_list_pop3:
  "pop3Service w = Some p \<Longrightarrow>
   same (Manager_list params)
     (bindE
       (bindE Pop3Service_listMessages
          (\<lambda>nums. returnE (map (\<lambda>n. \<lparr>uid = n, flags = [], envelope = emptyEnvelope,
                                        msize = None\<rparr>) nums)))
       (\<lambda>msgs.
          returnE
            \<lparr>threads = map (\<lambda>msg. \<lparr>thread_id = toString (uid msg)\<rparr>) msgs,
             nextPageToken =
               (if length msgs > 0 \<and> truthy (maxResults params)
                   \<and> length msgs = num (maxResults params)
                then Some (toString (uid (last msgs) + 1)) else None)\<rparr>)) w"
  by (simp add: same_def Manager_list_def)

lemma Manager_list_pop3_result:
  assumes "pop3Service w = Some p"
  shows "result (Manager_list params) w =
     (case result Pop3Service_listMessages w of
        Resolved nums \<Rightarrow>
          Resolved \<lparr>threads = map (\<lambda>n. \<lparr>thread_id = toString n\<rparr>) nums,
                    nextPageToken =
                      (if length nums > 0 \<and> truthy (maxResults params)
                          \<and> length nums = num (maxResults params)
                       then Some (toString (last nums + 1)) else None)\<rparr>
      | Rejected e \<Rightarrow> Rejected e
      | Pending \<Rightarrow> Pending)"
  unfolding result_cong [OF Manager_list_pop3 [OF assms]]
  by (simp add: result_bindE o_def last_map split: outcome.splits)

lemma pop3_connect_result:
  "result Pop3Service_connect w =
     (case pop3_login (env w) (clock w) of
        Returns (status, rawdata) \<Rightarrow>
          if status then Resolved () else Rejected (JsError (''POP3 login failed: '' @ rawdata))
      | Throws e \<Rightarrow> Rejected e
      | Silent \<Rightarrow> Pending)"
  by (simp add: result_def Pop3Service_connect_def bindE_def call_def Let_def pop3_update_def
      throwE_def split: response.splits prod.splits)

lemma pop3_connect_after:
  "env (after Pop3Service_connect w) = env w"
  "clock (after Pop3Service_connect w) = Suc (clock w)"
  "pop3_client w \<Longrightarrow> pop3_client (after Pop3Service_connect w)"
  by (simp_all add: after_def Pop3Service_connect_def bindE_def call_def Let_def pop3_update_def
      throwE_def pop3_client_def split: response.splits prod.splits option.splits)

lemma pop3_connectIfNeeded_opens:
  assumes "sessionOpens w"
  shows "result Pop3Service_connectIfNeeded w = Resolved ()"
    and "env (after Pop3Service_connectIfNeeded w) = env w"
    and "clock (after Pop3Service_connectIfNeeded w) = commandClock w"
proof -
  show "result Pop3Service_connectIfNeeded w = Resolved ()"
  proof (cases "pop3_connected w")
    case True
    then show ?thesis by (rule pop3_connectIfNeeded_connected)
  next
    case False
    then have "result Pop3Service_connectIfNeeded w = result Pop3Service_connect w"
      by (simp add: result_def Pop3Service_connectIfNeeded_def)
    then show ?thesis
      using assms False
      by (simp add: pop3_connect_result sessionOpens_def split: response.splits prod.splits)
  qed
  show "env (after Pop3Service_connectIfNeeded w) = env w"
    by (cases "pop3_connected w")
      (simp_all add: after_def [of Pop3Service_connectIfNeeded] Pop3Service_connectIfNeeded_def
        returnE_def pop3_connect_after [unfolded after_def])
  show "clock (after Pop3Service_connectIfNeeded w) = commandClock w"
    by (cases "pop3_connected w")
      (simp_all add: after_def [of Pop3Service_connectIfNeeded] Pop3Service_connectIfNeeded_def
        returnE_def pop3_connect_after [unfolded after_def] commandClock_def)
qed

lemma pop3_connectIfNeeded_refused:
  assumes "\<not> sessionOpens w"
  shows "\<not> resolved (result Pop3Service_connectIfNeeded w)"
proof -
  from assms have nc: "\<not> pop3_connected w" by (simp add: sessionOpens_def)
  then have "result Pop3Service_connectIfNeeded w = result Pop3Service_connect w"
    by (simp add: result_def Pop3Service_connectIfNeeded_def)
  then show ?thesis
    using assms nc
    by (simp add: pop3_connect_result sessionOpens_def split: response.splits prod.splits)
qed

lemma executor_refused:
  "\<not> resolved (result before w) \<Longrightarrow> result (executor before cmd onEvent) w = Pending"
  by (simp add: result_executor resolved_def split: outcome.splits)

lemma pop3_listMessages_same:
  "pop3_client w \<Longrightarrow>
   same Pop3Service_listMessages
     (executor Pop3Service_connectIfNeeded (command Pop3List pop3_list)
       (\<lambda>(status, msgcount).
          if status then returnE (pushNumbers 0 msgcount [])
          else throwE (JsError ''POP3 LIST failed''))) w"
  by (simp add: same_def Pop3Service_listMessages_def)

lemma pop3_fetchMessage_same:
  "pop3_client w \<Longrightarrow>
   same (Pop3Service_fetchMessage n)
     (executor Pop3Service_connectIfNeeded (command (Pop3Retr n) (\<lambda>s t. pop3_retr s t n))
       (\<lambda>(status, rawdata, dataBuffer).
          if status then returnE dataBuffer
          else throwE (JsError (''POP3 RETR failed: '' @ rawdata)))) w"
  by (simp add: same_def Pop3Service_fetchMessage_def)

lemma pop3_listMessages_opens:
  assumes "pop3_client w" "sessionOpens w"
  shows "result Pop3Service_listMessages w =
           (case pop3_list (env w) (commandClock w) of
              Returns (status, msgcount) \<Rightarrow>
                if status then Resolved [1..<Suc msgcount] else Rejected (JsError ''POP3 LIST failed'')
            | Throws e \<Rightarrow> Pending
            | Silent \<Rightarrow> Pending)"
  unfolding result_cong [OF pop3_listMessages_same [OF assms(1)]]
  by (cases "pop3_list (env w) (commandClock w)")
    (auto simp: result_executor pop3_connectIfNeeded_opens [OF assms(2)] pushNumbers_upt)

lemma pop3_listMessages_refused:
  assumes "pop3_client w" "\<not> sessionOpens w"
  shows "result Pop3Service_listMessages w = Pending"
  unfolding result_cong [OF pop3_listMessages_same [OF assms(1)]]
  by (rule executor_refused [OF pop3_connectIfNeeded_refused [OF assms(2)]])

lemma pop3_fetchMessage_opens:
  assumes "pop3_client w" "sessionOpens w"
  shows "result (Pop3Service_fetchMessage n) w =
           (case pop3_retr (env w) (commandClock w) n of
              Returns (status, rawdata, dataBuffer) \<Rightarrow>
                if status then Resolved dataBuffer
                else Rejected (JsError (''POP3 RETR failed: '' @ rawdata))
            | Throws e \<Rightarrow> Pending
            | Silent \<Rightarrow> Pending)"
  unfolding result_cong [OF pop3_fetchMessage_same [OF assms(1)]]
  by (cases "pop3_retr (env w) (commandClock w) n")
    (auto simp: result_executor pop3_connectIfNeeded_opens [OF assms(2)])

lemma pop3_fetchMessage_refused:
  assumes "pop3_client w" "\<not> sessionOpens w"
  shows "result (Pop3Service_fetchMessage n) w = Pending"
  unfolding result_cong [OF pop3_fetchMessage_same [OF assms(1)]]
  by (rule executor_refused [OF pop3_connectIfNeeded_refused [OF assms(2)]])

lemma pop3_client_configured: "pop3_client w \<Longrightarrow> \<exists>p. pop3Service w = Some p"
  by (simp add: pop3_client_def split: option.splits)

lemma fresh_manager_client: "pop3_client (snd (GenericMailManager s host True))"
  by (simp add: GenericMailManager_def Let_def tryCatch_def Pop3Service_connect_def bindE_def
      call_def pop3_update_def throwE_def console_def pop3_client_def
      split: response.splits prod.splits outcome.splits)


text \<open>
  C7 (amended). A manager built with POP3 has a POP3 client from its construction on.
  On a manager whose POP3 client exists, in every state and whatever the server
  answers: whenever \<^verbatim>\<open>get(id)\<close> resolves, the thread holds one message, with the id
  given, whose \<^verbatim>\<open>read\<close> field is false and whose labels are empty, and the thread has
  \<^verbatim>\<open>hasUnread\<close> true and no labels. When the session opens (it is connected already, or
  it is not and the server accepts the login the call makes first): if LIST reports 3
  messages, \<^verbatim>\<open>list()\<close> resolves with the thread ids "1", "2", "3"; if RETR succeeds with
  a non-empty text, \<^verbatim>\<open>get(id)\<close> resolves with the thread parsed from it. When the session
  does not open (not connected, and the login refused, failed or unanswered), neither
  \<^verbatim>\<open>list()\<close> nor \<^verbatim>\<open>get(id)\<close> ever settles.
\<close>

theorem pop3_get_is_unread:
  "pop3_client (snd (GenericMailManager s host True))
   \<and> (pop3_client w \<longrightarrow>
       (result (Manager_get id') w = Resolved r \<longrightarrow>
          pm_read (latest r) = False \<and> pm_labels (latest r) = [] \<and> pm_id (latest r) = id'
          \<and> messages r = [latest r] \<and> hasUnread r \<and> labels r = [])
     \<and> (sessionOpens w \<and> pop3_list (env w) (commandClock w) = Returns (True, 3) \<longrightarrow>
          map_option (map thread_id \<circ> threads) (resolvedValue (result (Manager_list params) w))
            = Some [''1'', ''2'', ''3''])
     \<and> (sessionOpens w
          \<and> pop3_retr (env w) (commandClock w) (Number id') = Returns (True, rawdata, raw)
          \<and> raw \<noteq> [] \<longrightarrow>
          result (Manager_get id') w =
            Resolved \<lparr>messages = [parsePop3Message raw id'], latest = parsePop3Message raw id',
                      hasUnread = True, totalReplies = 0, labels = []\<rparr>)
     \<and> (\<not> sessionOpens w \<longrightarrow>
          result (Manager_list params) w = Pending \<and> result (Manager_get id') w = Pending))"
proof (intro conjI impI)
  show "pop3_client (snd (GenericMailManager s host True))" by (rule fresh_manager_client)
next
  assume c: "pop3_client w"
  then obtain p where p: "pop3Service w = Some p" using pop3_client_configured by blast
  {
    assume "result (Manager_get id') w = Resolved r"
    then obtain raw where r: "r = \<lparr>messages = [parsePop3Message raw id'],
                          latest = parsePop3Message raw id', hasUnread = True,
                          totalReplies = 0, labels = []\<rparr>"
      by (auto simp: Manager_get_pop3_result [OF p] split: outcome.splits if_splits)
    show "pm_read (latest r) = False" "pm_labels (latest r) = []" "pm_id (latest r) = id'"
      "messages r = [latest r]" "hasUnread r" "labels r = []"
      by (simp_all add: r parsePop3Message_def Let_def)
  }
  {
    assume "sessionOpens w \<and> pop3_list (env w) (commandClock w) = Returns (True, 3)"
    then have o: "sessionOpens w" and l: "pop3_list (env w) (commandClock w) = Returns (True, 3)"
      by simp_all
    define nums :: "nat list" where "nums = [1..<Suc 3]"
    have ids: "map (thread_id \<circ> (\<lambda>n. \<lparr>thread_id = toString n\<rparr>)) nums = [''1'', ''2'', ''3'']"
      unfolding nums_def by code_simp
    have "result Pop3Service_listMessages w = Resolved nums"
      unfolding nums_def pop3_listMessages_opens [OF c o] l
      by (simp only: response.case prod.case if_True)
    then show "map_option (map thread_id \<circ> threads) (resolvedValue (result (Manager_list params) w))
          = Some [''1'', ''2'', ''3'']"
      by (simp add: Manager_list_pop3_result [OF p] resolvedValue_def ids)
  }
  {
    assume "sessionOpens w
          \<and> pop3_retr (env w) (commandClock w) (Number id') = Returns (True, rawdata, raw)
          \<and> raw \<noteq> []"
    then show "result (Manager_get id') w =
          Resolved \<lparr>messages = [parsePop3Message raw id'], latest = parsePop3Message raw id',
                    hasUnread = True, totalReplies = 0, labels = []\<rparr>"
      by (simp add: Manager_get_pop3_result [OF p] pop3_fetchMessage_opens [OF c])
  }
  {
    assume n: "\<not> sessionOpens w"
    show "result (Manager_list params) w = Pending"
      by (simp add: Manager_list_pop3_result [OF p] pop3_listMessages_refused [OF c n])
    show "result (Manager_get id') w = Pending"
      by (simp add: Manager_get_pop3_result [OF p] pop3_fetchMessage_refused [OF c n])
  }
qed

text \<open>
  A manager whose first login was refused while it was built: its first call finds the
  session not connected, logs in again, and is answered.
\<close>

theorem pop3_get_is_unread_witness:
  "pop3_client lateWorld \<and> \<not> pop3_connected lateWorld \<and> sessionOpens lateWorld
   \<and> pop3_list (env lateWorld) (commandClock lateWorld) = Returns (True, 3)
   \<and> pop3_retr (env lateWorld) (commandClock lateWorld) (Number ''2'')
        = Returns (True, ''+OK'', maildrop3 ! 1)
   \<and> maildrop3 ! 1 \<noteq> []
   \<and> map_option (map thread_id \<circ> threads)
        (resolvedValue (result (Manager_list \<lparr>folder = ''INBOX'', maxResults = None, pageToken = None\<rparr>) lateWorld))
        = Some [''1'', ''2'', ''3'']
   \<and> result (Manager_get ''2'') lateWorld =
          Resolved \<lparr>messages = [parsePop3Message (maildrop3 ! 1) ''2''],
                    latest = parsePop3Message (maildrop3 ! 1) ''2'',
                    hasUnread = True, totalReplies = 0, labels = []\<rparr>
   \<and> pm_read (parsePop3Message (maildrop3 ! 1) ''2'') = False
   \<and> pop3_client refusedWorld \<and> \<not> sessionOpens refusedWorld
   \<and> result (Manager_list \<lparr>folder = ''INBOX'', maxResults = None, pageToken = None\<rparr>) refusedWorld
        = Pending"
proof -
  have b: "pop3_client lateWorld" by code_simp
  have c: "\<not> pop3_connected lateWorld" by code_simp
  have o: "sessionOpens lateWorld" by code_simp
  have d: "pop3_list (env lateWorld) (commandClock lateWorld) = Returns (True, 3)" by code_simp
  have e: "pop3_retr (env lateWorld) (commandClock lateWorld) (Number ''2'')
             = Returns (True, ''+OK'', maildrop3 ! 1)"
    by code_simp
  have f: "maildrop3 ! 1 \<noteq> []" by code_simp
  note t = pop3_get_is_unread [of _ _ lateWorld "''2''"
      "\<lparr>messages = [parsePop3Message (maildrop3 ! 1) ''2''],
        latest = parsePop3Message (maildrop3 ! 1) ''2'',
        hasUnread = True, totalReplies = 0, labels = []\<rparr>"
      "\<lparr>folder = ''INBOX'', maxResults = None, pageToken = None\<rparr>"
      "''+OK''" "maildrop3 ! 1"]
  have g: "result (Manager_get ''2'') lateWorld =
          Resolved \<lparr>messages = [parsePop3Message (maildrop3 ! 1) ''2''],
                    latest = parsePop3Message (maildrop3 ! 1) ''2'',
                    hasUnread = True, totalReplies = 0, labels = []\<rparr>"
    using t b o e f by blast
  have h: "pm_read (parsePop3Message (maildrop3 ! 1) ''2'') = False"
    using t b g by simp
  have i: "map_option (map thread_id \<circ> threads)
        (resolvedValue (result (Manager_list \<lparr>folder = ''INBOX'', maxResults = None, pageToken = None\<rparr>) lateWorld))
        = Some [''1'', ''2'', ''3'']"
    using t b o d by blast
  have j: "pop3_client refusedWorld" by code_simp
  have k: "\<not> sessionOpens refusedWorld" by code_simp
  have l: "result (Manager_list \<lparr>folder = ''INBOX'', maxResults = None, pageToken = None\<rparr>) refusedWorld
        = Pending"
    using pop3_get_is_unread [of _ _ refusedWorld _ _
        "\<lparr>folder = ''INBOX'', maxResults = None, pageToken = None\<rparr>"] j k
    by blast
  show ?thesis using b c o d e f g h i j k l by blast
qed

text \<open>
  The scenario of the claim, on the manager with POP3 configured over three messages,
  connected or not yet connected: \<^verbatim>\<open>list()\<close> gives the ids "1", "2", "3", and the
  message \<^verbatim>\<open>get("2")\<close> returns has a \<^verbatim>\<open>read\<close> field that is false, not true.
\<close>

theorem pop3_get_read_counterexample:
  "map_option (map thread_id \<circ> threads)
        (resolvedValue (result (Manager_list \<lparr>folder = ''INBOX'', maxResults = None, pageToken = None\<rparr>) pop3World))
        = Some [''1'', ''2'', ''3'']
   \<and> map_option (pm_read \<circ> latest) (resolvedValue (result (Manager_get ''2'') pop3World)) = Some False
   \<and> map_option (pm_labels \<circ> latest) (resolvedValue (result (Manager_get ''2'') pop3World)) = Some []
   \<and> map_option (pm_subject \<circ> latest) (resolvedValue (result (Manager_get ''2'') pop3World)) = Some ''two''
   \<and> map_option (pm_read \<circ> latest) (resolvedValue (result (Manager_get ''2'') lateWorld)) = Some False"
  by code_simp

lemma no_flagsAdd:
  "list_all (only (\<lambda>c. \<forall>u fl. c \<noteq> MessageFlagsAdd u fl)) es \<Longrightarrow> \<not> list_ex isFlagsAdd es"
  by (induction es) (auto simp: only_def isFlagsAdd_def split: event.splits lib_call.splits)

lemma calls_moveMessage:
  "C ImapConnect \<Longrightarrow> (\<And>c. inMailbox c \<Longrightarrow> C c) \<Longrightarrow> calls C (ImapService_moveMessage p u d)"
  unfolding ImapService_moveMessage_def by (intro calls_intros) simp_all

lemma moveMessage_no_flagsAdd:
  "\<not> list_ex isFlagsAdd (events (ImapService_moveMessage p u d) w)"
proof -
  have "calls (\<lambda>c. \<forall>u fl. c \<noteq> MessageFlagsAdd u fl) (ImapService_moveMessage p u d)"
    unfolding ImapService_moveMessage_def by (intro calls_intros) simp_all
  then show ?thesis by (rule no_flagsAdd [OF callsD])
qed

lemma delete_result:
  "result (Manager_delete id') w =
     (case result (ImapService_moveMessage ''INBOX'' id' ''Trash'') w of
        Resolved u \<Rightarrow> Resolved ()
      | Pending \<Rightarrow> Pending
      | Rejected e \<Rightarrow>
          (case result (ImapService_setFlags ''INBOX'' id' [Deleted])
                  (after (ImapService_moveMessage ''INBOX'' id' ''Trash'') w) of
             Resolved u \<Rightarrow>
               Rejected (StandardizedError
                  (''Failed to move message to trash and fallback also problematic: ''
                     @ err_toString e) 500 (Some e))
           | Rejected e2 \<Rightarrow> Rejected e2
           | Pending \<Rightarrow> Pending))"
  by (simp add: Manager_delete_def Let_def result_tryCatch result_bindE split: outcome.splits)

lemma delete_events:
  "events (Manager_delete id') w =
     (case result (ImapService_moveMessage ''INBOX'' id' ''Trash'') w of
        Rejected e \<Rightarrow>
          events (ImapService_moveMessage ''INBOX'' id' ''Trash'') w @ deleteWarning id' #
          events (ImapService_setFlags ''INBOX'' id' [Deleted])
            (after (ImapService_moveMessage ''INBOX'' id' ''Trash'') w)
      | Resolved u \<Rightarrow> events (ImapService_moveMessage ''INBOX'' id' ''Trash'') w
      | Pending \<Rightarrow> events (ImapService_moveMessage ''INBOX'' id' ''Trash'') w)"
  by (simp add: Manager_delete_def Let_def events_tryCatch events_bindE result_bindE after_bindE
      deleteWarning_def split: outcome.splits)


text \<open>
  C1 (amended). For every call to \<^verbatim>\<open>delete(id)\<close>, in every state and whatever the
  library answers: the call starts with \<^verbatim>\<open>moveMessage('INBOX', id, 'Trash')\<close>. When the
  move resolves, so does \<^verbatim>\<open>delete\<close>, and nothing else is done. When the move throws, the
  manager warns and calls \<^verbatim>\<open>setFlags('INBOX', id, ['\Deleted'])\<close>; if that call
  resolves, \<^verbatim>\<open>delete\<close> throws a StandardizedError with code 500 whose cause is the error
  of the move; if that call throws, \<^verbatim>\<open>delete\<close> throws the error of that call, unwrapped;
  in no case does \<^verbatim>\<open>delete\<close> resolve. \<^verbatim>\<open>messageFlagsAdd\<close> is called only when the move
  threw.
\<close>

theorem delete_moves_then_flags:
  "(resolved (result (ImapService_moveMessage ''INBOX'' id' ''Trash'') w) \<longrightarrow>
      result (Manager_delete id') w = Resolved ()
      \<and> events (Manager_delete id') w = events (ImapService_moveMessage ''INBOX'' id' ''Trash'') w)
   \<and> (result (ImapService_moveMessage ''INBOX'' id' ''Trash'') w = Rejected e \<longrightarrow>
      events (Manager_delete id') w =
        events (ImapService_moveMessage ''INBOX'' id' ''Trash'') w @ deleteWarning id' #
        events (ImapService_setFlags ''INBOX'' id' [Deleted])
          (after (ImapService_moveMessage ''INBOX'' id' ''Trash'') w)
      \<and> \<not> resolved (result (Manager_delete id') w)
      \<and> (resolved (result (ImapService_setFlags ''INBOX'' id' [Deleted])
                      (after (ImapService_moveMessage ''INBOX'' id' ''Trash'') w)) \<longrightarrow>
           result (Manager_delete id') w =
             Rejected (StandardizedError
               (''Failed to move message to trash and fallback also problematic: ''
                  @ err_toString e) 500 (Some e)))
      \<and> (result (ImapService_setFlags ''INBOX'' id' [Deleted])
             (after (ImapService_moveMessage ''INBOX'' id' ''Trash'') w) = Rejected e2 \<longrightarrow>
           result (Manager_delete id') w = Rejected e2))
   \<and> (list_ex isFlagsAdd (events (Manager_delete id') w) \<longrightarrow>
        rejected (result (ImapService_moveMessage ''INBOX'' id' ''Trash'') w))
   \<and> (resolved (result (Manager_delete id') w)
        = resolved (result (ImapService_moveMessage ''INBOX'' id' ''Trash'') w))"
  using moveMessage_no_flagsAdd [of "''INBOX''" id' "''Trash''" w]
  by (auto simp: delete_result delete_events resolved_def rejected_def split: outcome.splits)

text \<open>
  The move throws and the fallback succeeds: the flag is set, and the call fails with
  the error of the move wrapped.
\<close>

theorem delete_moves_then_flags_witness:
  "result (ImapService_moveMessage ''INBOX'' ''11'' ''Trash'') moveFailsWorld
     = Rejected (LibError ''MOVE failed'')
   \<and> resolved (result (ImapService_setFlags ''INBOX'' ''11'' [Deleted])
                 (after (ImapService_moveMessage ''INBOX'' ''11'' ''Trash'') moveFailsWorld))
   \<and> result (Manager_delete ''11'') moveFailsWorld =
       Rejected (StandardizedError
         (''Failed to move message to trash and fallback also problematic: ''
            @ err_toString (LibError ''MOVE failed'')) 500 (Some (LibError ''MOVE failed'')))
   \<and> Lib (MessageFlagsAdd ''11'' [Deleted]) Succeeded \<in> set (events (Manager_delete ''11'') moveFailsWorld)"
proof -
  have a: "result (ImapService_moveMessage ''INBOX'' ''11'' ''Trash'') moveFailsWorld
     = Rejected (LibError ''MOVE failed'')" by code_simp
  have b: "resolved (result (ImapService_setFlags ''INBOX'' ''11'' [Deleted])
                 (after (ImapService_moveMessage ''INBOX'' ''11'' ''Trash'') moveFailsWorld))"
    by code_simp
  have c: "Lib (MessageFlagsAdd ''11'' [Deleted]) Succeeded \<in> set (events (Manager_delete ''11'') moveFailsWorld)"
    by code_simp
  show ?thesis
    using delete_moves_then_flags [of "''11''" moveFailsWorld "LibError ''MOVE failed''"] a b c
    by blast
qed

text \<open>
  The move throws and the fallback throws too (the server refuses both commands): the
  error \<^verbatim>\<open>delete\<close> raises is the error of the fallback, not a wrapper of the error of the
  move, and no flag was set.
\<close>

theorem delete_double_fault_counterexample:
  "result (ImapService_moveMessage ''INBOX'' ''11'' ''Trash'') moveAndStoreFailWorld
     = Rejected (LibError ''MOVE failed'')
   \<and> result (Manager_delete ''11'') moveAndStoreFailWorld = Rejected (LibError ''STORE failed'')
   \<and> Lib (MessageFlagsAdd ''11'' [Deleted]) Succeeded
        \<notin> set (events (Manager_delete ''11'') moveAndStoreFailWorld)
   \<and> Lib (MessageFlagsAdd ''11'' [Deleted]) (Threw (LibError ''STORE failed''))
        \<in> set (events (Manager_delete ''11'') moveAndStoreFailWorld)"
  by code_simp

lemma getDraft_result:
  "result (Manager_getDraft id') w =
     (case result (ImapService_fetchMessage DRAFTS_FOLDER id') w of
        Resolved None \<Rightarrow> Rejected draftNotFound
      | Resolved (Some m) \<Rightarrow>
          if Draft \<notin> set (flags m) then Rejected draftNotFound
          else Resolved \<lparr>d_id = toString (uid m),
                         d_to = addresses (env_to (envelope m)),
                         d_cc = addresses (env_cc (envelope m)),
                         d_bcc = addresses (env_bcc (envelope m)),
                         d_subject = env_subject (envelope m),
                         d_content = (if truthyS (textBody m) then textBody m else htmlBody m)\<rparr>
      | Rejected e \<Rightarrow> Rejected e
      | Pending \<Rightarrow> Pending)"
  by (simp add: Manager_getDraft_def result_bindE split: outcome.splits option.splits)

text \<open>
  C10 (amended). \<^verbatim>\<open>getDraft(id)\<close> fetches the message from the folder Drafts. It throws
  the 404 error \<^verbatim>\<open>Draft not found or not a draft\<close> when the fetch finds no message, and
  also when it finds a message whose flags do not include \<^verbatim>\<open>\Draft\<close>. It resolves only
  when the fetch found a message whose flags include \<^verbatim>\<open>\Draft\<close>, and then with a draft
  whose content is the plain-text body when the message has one that is not empty (the
  code reads \<^verbatim>\<open>textBody || htmlBody\<close>), else the HTML body.
\<close>

theorem getDraft_requires_flag:
  "(result (ImapService_fetchMessage DRAFTS_FOLDER id') w = Resolved None \<longrightarrow>
      result (Manager_getDraft id') w
        = Rejected (StandardizedError ''Draft not found or not a draft'' 404 None))
   \<and> (result (ImapService_fetchMessage DRAFTS_FOLDER id') w = Resolved (Some m)
        \<and> Draft \<notin> set (flags m) \<longrightarrow>
      result (Manager_getDraft id') w
        = Rejected (StandardizedError ''Draft not found or not a draft'' 404 None))
   \<and> (result (ImapService_fetchMessage DRAFTS_FOLDER id') w = Resolved (Some m)
        \<and> Draft \<in> set (flags m) \<longrightarrow>
      result (Manager_getDraft id') w =
        Resolved \<lparr>d_id = toString (uid m),
                  d_to = addresses (env_to (envelope m)),
                  d_cc = addresses (env_cc (envelope m)),
                  d_bcc = addresses (env_bcc (envelope m)),
                  d_subject = env_subject (envelope m),
                  d_content = (case textBody m of
                                 None \<Rightarrow> htmlBody m
                               | Some t \<Rightarrow> if t = [] then htmlBody m else Some t)\<rparr>)
   \<and> (result (Manager_getDraft id') w = Resolved d \<longrightarrow>
        (\<exists>m'. result (ImapService_fetchMessage DRAFTS_FOLDER id') w = Resolved (Some m')
              \<and> Draft \<in> set (flags m')))
   \<and> DRAFTS_FOLDER = ''Drafts''"
  by (auto simp: getDraft_result draftNotFound_def truthyS_def DRAFTS_FOLDER_def
      split: outcome.splits option.splits if_splits)


text \<open>
  A Drafts folder with a message 11 that is not a draft and a draft 15 with a plain-text
  and an HTML part: no message 99 and the message 11 give the 404 error, the draft 15
  gives its plain text, and its HTML when the plain-text part is empty.
\<close>

theorem getDraft_requires_flag_witness:
  "result (ImapService_fetchMessage DRAFTS_FOLDER ''99'') (draftWorld ''plain text'') = Resolved None
   \<and> result (Manager_getDraft ''99'') (draftWorld ''plain text'')
        = Rejected (StandardizedError ''Draft not found or not a draft'' 404 None)
   \<and> result (Manager_getDraft ''11'') (draftWorld ''plain text'')
        = Rejected (StandardizedError ''Draft not found or not a draft'' 404 None)
   \<and> result (Manager_getDraft ''15'') (draftWorld ''plain text'') =
        Resolved \<lparr>d_id = ''15'', d_to = None, d_cc = None, d_bcc = None, d_subject = None,
                  d_content = Some ''plain text''\<rparr>
   \<and> result (Manager_getDraft ''15'') (draftWorld []) =
        Resolved \<lparr>d_id = ''15'', d_to = None, d_cc = None, d_bcc = None, d_subject = None,
                  d_content = Some ''<p>html</p>''\<rparr>"
proof -
  have a: "result (ImapService_fetchMessage DRAFTS_FOLDER ''99'') (draftWorld ''plain text'') = Resolved None"
    by code_simp
  have b: "result (Manager_getDraft ''99'') (draftWorld ''plain text'')
        = Rejected (StandardizedError ''Draft not found or not a draft'' 404 None)"
    using getDraft_requires_flag [of "''99''" "draftWorld ''plain text''"] a by blast
  have c: "result (Manager_getDraft ''11'') (draftWorld ''plain text'')
        = Rejected (StandardizedError ''Draft not found or not a draft'' 404 None)"
    by code_simp
  have d: "result (Manager_getDraft ''15'') (draftWorld ''plain text'') =
        Resolved \<lparr>d_id = ''15'', d_to = None, d_cc = None, d_bcc = None, d_subject = None,
                  d_content = Some ''plain text''\<rparr>"
    by code_simp
  have e: "result (Manager_getDraft ''15'') (draftWorld []) =
        Resolved \<lparr>d_id = ''15'', d_to = None, d_cc = None, d_bcc = None, d_subject = None,
                  d_content = Some ''<p>html</p>''\<rparr>"
    by code_simp
  show ?thesis using a b c d e by blast
qed


text \<open>
  A draft whose plain-text part is present and empty, beside an HTML part: the content
  of the draft returned is the HTML, not the plain text.
\<close>

theorem getDraft_empty_text_counterexample:
  "map_option (map_option textBody)
     (resolvedValue (result (ImapService_fetchMessage DRAFTS_FOLDER ''15'') (draftWorld [])))
     = Some (Some (Some []))
   \<and> map_option d_content (resolvedValue (result (Manager_getDraft ''15'') (draftWorld [])))
     = Some (Some ''<p>html</p>'')"
  by code_simp

lemma ignores_env [simp]: "ignores env"
  by (simp add: ignores_def)

lemma env_lockedWorld [simp]: "env (lockedWorld path w) = env w"
  by (simp add: lockedWorld_def)

lemma slice_last:
  assumes "0 < N"
  shows "slice (nat (max 1 (int (length msgs) - int N + 1))) (length msgs) msgs
           = drop (length msgs - N) msgs"
proof (cases "N \<le> length msgs")
  case True
  then have "nat (max 1 (int (length msgs) - int N + 1)) = length msgs - N + 1"
    by (simp add: nat_add_distrib nat_diff_distrib' max_def)
  then show ?thesis using True assms by (simp add: slice_def)
next
  case False
  then have "nat (max 1 (int (length msgs) - int N + 1)) = 1"
    by (simp add: max_def)
  then show ?thesis using False by (simp add: slice_def)
qed

lemma serves_connectIfNeeded:
  assumes "serves (env w) mb msgs"
  shows "result connectIfNeeded w = Resolved ()" and "env (after connectIfNeeded w) = env w"
  using assms keepsD [OF keeps_connectIfNeeded [OF ignores_env], of w]
  by (simp_all add: result_connectIfNeeded result_connect serves_def)

lemma result_fetchRange:
  "result (fetchRange r) w =
     (case imap_fetch (env w) (clock w) r of
        Returns msgs \<Rightarrow> Resolved (map basicInfo msgs)
      | Throws e \<Rightarrow> Rejected e
      | Silent \<Rightarrow> Pending)"
  by (simp add: fetchRange_def result_bindE result_call split: response.splits)

lemma serves_listMessages:
  assumes "serves (env w) mb msgs" "0 < N"
  shows "result (ImapService_listMessages mb None (Some N)) w
           = Resolved (map basicInfo (drop (length msgs - N) msgs))"
proof -
  have s: "serves (env (after connectIfNeeded w)) mb msgs"
    using assms(1) serves_connectIfNeeded(2) [OF assms(1)] by simp
  have "result (ImapService_listMessages mb None (Some N)) w =
        result (withMailboxLock mb (''IMAP listMessages error in '' @ mb @ '':'')
          (bindE (call (ImapStatus mb) (\<lambda>s t. imap_status s t mb))
              (\<lambda>messages.
                 let totalMessages = (case messages of None \<Rightarrow> 0 | Some m \<Rightarrow> m) in
                 if totalMessages > 0 then
                   let start = nat (max 1 (int totalMessages - int (num (Some N)) + 1)) in
                   fetchRange (Range start totalMessages)
                 else returnE []))) (after connectIfNeeded w)"
    using assms(2)
    by (simp add: ImapService_listMessages_def result_bindE serves_connectIfNeeded(1) [OF assms(1)]
        truthy_def)
  also have "\<dots> = Resolved (map basicInfo (drop (length msgs - N) msgs))"
    using s slice_last [OF assms(2), of msgs]
    by (simp add: result_withMailboxLock result_bindE result_call result_fetchRange serves_def
        Let_def num_def)
  finally show ?thesis .
qed

lemma Manager_list_imap:
  "pop3Service w = None \<Longrightarrow>
   same (Manager_list params)
     (bindE (ImapService_listMessages (folder params) (pageToken params) (maxResults params))
       (\<lambda>msgs. returnE (pageOf params msgs))) w"
  by (simp add: same_def Manager_list_def pageOf_def)

lemma Manager_list_imap_result:
  assumes "pop3Service w = None"
  shows "result (Manager_list params) w =
     (case result (ImapService_listMessages (folder params) (pageToken params) (maxResults params)) w of
        Resolved msgs \<Rightarrow> Resolved (pageOf params msgs)
      | Rejected e \<Rightarrow> Rejected e
      | Pending \<Rightarrow> Pending)"
  unfolding result_cong [OF Manager_list_imap [OF assms]]
  by (simp add: result_bindE split: outcome.splits)

lemma pageOf_token:
  "(nextPageToken (pageOf params msgs) \<noteq> None)
     = (truthy (maxResults params) \<and> length (threads (pageOf params msgs)) = num (maxResults params))"
  by (cases "maxResults params") (auto simp: pageOf_def truthy_def num_def)

lemma Manager_list_page:
  assumes "result (Manager_list params) w = Resolved l"
  shows "\<exists>msgs. l = pageOf params msgs"
proof (cases "pop3Service w")
  case None
  show ?thesis
  proof (cases "result (ImapService_listMessages (folder params) (pageToken params) (maxResults params)) w")
    case (Resolved msgs)
    then have "l = pageOf params msgs"
      using assms by (simp add: Manager_list_imap_result [OF None])
    then show ?thesis by blast
  next
    case (Rejected e)
    then show ?thesis using assms by (simp add: Manager_list_imap_result [OF None])
  next
    case Pending
    then show ?thesis using assms by (simp add: Manager_list_imap_result [OF None])
  qed
next
  case (Some p)
  show ?thesis
  proof (cases "result Pop3Service_listMessages w")
    case (Resolved nums)
    then have "l = pageOf params (map (\<lambda>n. \<lparr>uid = n, flags = [], envelope = emptyEnvelope,
                                        msize = None\<rparr>) nums)"
      using assms by (auto simp: Manager_list_pop3_result [OF Some] pageOf_def o_def last_map)
    then show ?thesis by blast
  next
    case (Rejected e)
    then show ?thesis using assms by (simp add: Manager_list_pop3_result [OF Some])
  next
    case Pending
    then show ?thesis using assms by (simp add: Manager_list_pop3_result [OF Some])
  qed
qed

lemma Manager_list_token:
  assumes "result (Manager_list params) w = Resolved l"
  shows "(nextPageToken l \<noteq> None)
           = (truthy (maxResults params) \<and> length (threads l) = num (maxResults params))"
proof -
  obtain msgs where "l = pageOf params msgs" using Manager_list_page [OF assms] by blast
  then show ?thesis by (simp only: pageOf_token)
qed

text \<open>
  C3 (amended). On a manager without POP3, with no page token and a page size N of at
  least 1, over a mailbox the server reports faithfully (connection and lock granted,
  STATUS gives the number of messages, FETCH of a sequence range gives the messages at
  those positions): \<^verbatim>\<open>list\<close> resolves with the last N messages of the mailbox when it
  holds at least N (exactly N threads, and the token is the decimal numeral of the uid
  of the last message plus one), and with all of them and a null token when it holds
  fewer. On every manager, with or without POP3, a page token or a page size: whenever
  \<^verbatim>\<open>list\<close> resolves, the token is non-null exactly when a non-zero page size was
  given and the number of threads returned equals it.
\<close>

theorem list_page:
  "(pop3Service w = None \<and> serves (env w) mb msgs \<and> 0 < N \<longrightarrow>
      result (Manager_list \<lparr>folder = mb, maxResults = Some N, pageToken = None\<rparr>) w =
        Resolved
          \<lparr>threads = map (\<lambda>m. \<lparr>thread_id = toString (f_uid m)\<rparr>) (drop (length msgs - N) msgs),
           nextPageToken =
             (if N \<le> length msgs then Some (toString (f_uid (last msgs) + 1)) else None)\<rparr>
      \<and> length (drop (length msgs - N) msgs) = min N (length msgs))
   \<and> (result (Manager_list params) w = Resolved l \<longrightarrow>
        (nextPageToken l \<noteq> None)
          = (truthy (maxResults params) \<and> length (threads l) = num (maxResults params)))"
proof (intro conjI impI)
  assume a: "pop3Service w = None \<and> serves (env w) mb msgs \<and> 0 < N"
  then have p: "pop3Service w = None" and s: "serves (env w) mb msgs" and n: "0 < N" by simp_all
  show "length (drop (length msgs - N) msgs) = min N (length msgs)" by auto
  have la: "N \<le> length msgs \<Longrightarrow> uid (last (map basicInfo (drop (length msgs - N) msgs))) = f_uid (last msgs)"
    using n by (simp add: last_map basicInfo_def)
  show "result (Manager_list \<lparr>folder = mb, maxResults = Some N, pageToken = None\<rparr>) w =
        Resolved
          \<lparr>threads = map (\<lambda>m. \<lparr>thread_id = toString (f_uid m)\<rparr>) (drop (length msgs - N) msgs),
           nextPageToken =
             (if N \<le> length msgs then Some (toString (f_uid (last msgs) + 1)) else None)\<rparr>"
  proof (cases "N \<le> length msgs")
    case True
    then show ?thesis
      using n la
      by (simp add: Manager_list_imap_result [OF p] serves_listMessages [OF s n] pageOf_def
          truthy_def num_def basicInfo_def o_def)
  next
    case False
    then show ?thesis
      using n
      by (simp add: Manager_list_imap_result [OF p] serves_listMessages [OF s n] pageOf_def
          truthy_def num_def basicInfo_def o_def)
  qed
next
  assume "result (Manager_list params) w = Resolved l"
  then show "(nextPageToken l \<noteq> None)
          = (truthy (maxResults params) \<and> length (threads l) = num (maxResults params))"
    by (rule Manager_list_token)
qed


theorem list_page_witness:
  "pop3Service imapWorld = None \<and> serves (env imapWorld) ''INBOX'' inbox3
   \<and> result (Manager_list \<lparr>folder = ''INBOX'', maxResults = Some 2, pageToken = None\<rparr>) imapWorld =
       Resolved \<lparr>threads = [\<lparr>thread_id = ''12''\<rparr>, \<lparr>thread_id = ''15''\<rparr>],
                 nextPageToken = Some ''16''\<rparr>
   \<and> result (Manager_list \<lparr>folder = ''INBOX'', maxResults = Some 5, pageToken = None\<rparr>) imapWorld =
       Resolved \<lparr>threads = [\<lparr>thread_id = ''11''\<rparr>, \<lparr>thread_id = ''12''\<rparr>, \<lparr>thread_id = ''15''\<rparr>],
                 nextPageToken = None\<rparr>"
proof -
  have a: "pop3Service imapWorld = None" by code_simp
  have b: "serves (env imapWorld) ''INBOX'' inbox3"
    by (simp add: serves_def imapWorld_def GenericMailManager_def serve_def)
  have c: "\<lparr>threads = map (\<lambda>m. \<lparr>thread_id = toString (f_uid m)\<rparr>) (drop (length inbox3 - 2) inbox3),
            nextPageToken =
              (if 2 \<le> length inbox3 then Some (toString (f_uid (last inbox3) + 1)) else None)\<rparr>
           = \<lparr>threads = [\<lparr>thread_id = ''12''\<rparr>, \<lparr>thread_id = ''15''\<rparr>],
              nextPageToken = Some ''16''\<rparr>"
    by code_simp
  have d: "\<lparr>threads = map (\<lambda>m. \<lparr>thread_id = toString (f_uid m)\<rparr>) (drop (length inbox3 - 5) inbox3),
            nextPageToken =
              (if 5 \<le> length inbox3 then Some (toString (f_uid (last inbox3) + 1)) else None)\<rparr>
           = \<lparr>threads = [\<lparr>thread_id = ''11''\<rparr>, \<lparr>thread_id = ''12''\<rparr>, \<lparr>thread_id = ''15''\<rparr>],
              nextPageToken = None\<rparr>"
    by code_simp
  have e: "result (Manager_list \<lparr>folder = ''INBOX'', maxResults = Some 2, pageToken = None\<rparr>) imapWorld =
       Resolved \<lparr>threads = [\<lparr>thread_id = ''12''\<rparr>, \<lparr>thread_id = ''15''\<rparr>],
                 nextPageToken = Some ''16''\<rparr>"
    using list_page [of imapWorld "''INBOX''" inbox3 2] a b unfolding c by simp
  have f: "result (Manager_list \<lparr>folder = ''INBOX'', maxResults = Some 5, pageToken = None\<rparr>) imapWorld =
       Resolved \<lparr>threads = [\<lparr>thread_id = ''11''\<rparr>, \<lparr>thread_id = ''12''\<rparr>, \<lparr>thread_id = ''15''\<rparr>],
                 nextPageToken = None\<rparr>"
    using list_page [of imapWorld "''INBOX''" inbox3 5] a b unfolding d by simp
  show ?thesis using a b e f by blast
qed

text \<open>
  Two calls with page size 2 on a mailbox of 3 messages that do not return 2 threads and
  a token: with POP3 configured, \<^verbatim>\<open>list\<close> returns all 3 messages of the maildrop and a
  null token; without POP3 and with the page token 3, it returns the one message at
  the sequence positions 3 to 4 and a null token.
\<close>

theorem list_page_counterexample:
  "map_option (length \<circ> threads)
      (resolvedValue (result (Manager_list \<lparr>folder = ''INBOX'', maxResults = Some 2, pageToken = None\<rparr>) pop3World))
      = Some 3
   \<and> map_option nextPageToken
      (resolvedValue (result (Manager_list \<lparr>folder = ''INBOX'', maxResults = Some 2, pageToken = None\<rparr>) pop3World))
      = Some None
   \<and> map_option (map thread_id \<circ> threads)
      (resolvedValue (result (Manager_list \<lparr>folder = ''INBOX'', maxResults = Some 2, pageToken = Some 3\<rparr>) imapWorld))
      = Some [''15'']
   \<and> map_option nextPageToken
      (resolvedValue (result (Manager_list \<lparr>folder = ''INBOX'', maxResults = Some 2, pageToken = Some 3\<rparr>) imapWorld))
      = Some None"
  by code_simp

lemma labelCalls_append [simp]: "labelCalls (xs @ ys) = labelCalls xs @ labelCalls ys"
  by (simp add: labelCalls_def)

lemma labelCalls_simps [simp]:
  "labelCalls [] = []"
  "labelCalls (Console l m ob # es) = labelCalls es"
  "labelCalls (Lib c st # es) = (if isLabelCall c then c # labelCalls es else labelCalls es)"
  by (simp_all add: labelCalls_def)

lemma failed_simps [simp]:
  "\<not> failed (Lib c Succeeded)" "failed (Lib c (Threw err))" "failed (Lib c NoAnswer)"
  "\<not> failed (Console l m ob)"
  by (simp_all add: failed_def)

lemma follows_returnE [simp]: "follows [] (returnE a)"
  by (simp add: follows_def)

lemma follows_bindE:
  assumes "follows p1 m" and "\<And>a. follows p2 (f a)"
  shows "follows (p1 @ p2) (bindE m f)"
  unfolding follows_def
proof (intro allI)
  fix w
  note m = assms(1) [unfolded follows_def, rule_format, of w]
  show "(resolved (result (bindE m f) w) \<longrightarrow>
             labelCalls (events (bindE m f) w) = p1 @ p2 \<and> \<not> list_ex failed (events (bindE m f) w))
        \<and> (\<exists>rest. filter isMutation (p1 @ p2)
              = filter isMutation (labelCalls (events (bindE m f) w)) @ rest)
        \<and> (\<not> list_ex failed (events (bindE m f) w) \<longrightarrow> resolved (result (bindE m f) w))"
  proof (cases "result m w")
    case (Resolved a)
    note f = assms(2) [unfolded follows_def, rule_format, of a "after m w"]
    from m Resolved have p1: "labelCalls (events m w) = p1" and nf: "\<not> list_ex failed (events m w)"
      by simp_all
    from f obtain rest where
      r: "filter isMutation p2 = filter isMutation (labelCalls (events (f a) (after m w))) @ rest"
      by blast
    show ?thesis
      using f p1 nf r by (simp add: result_bindE events_bindE Resolved)
  next
    case (Rejected e)
    from m obtain rest where
      r: "filter isMutation p1 = filter isMutation (labelCalls (events m w)) @ rest" by blast
    show ?thesis
      using m Rejected r by (simp add: result_bindE events_bindE)
  next
    case Pending
    from m obtain rest where
      r: "filter isMutation p1 = filter isMutation (labelCalls (events m w)) @ rest" by blast
    show ?thesis
      using m Pending r by (simp add: result_bindE events_bindE)
  qed
qed

lemma follows_whenE: "follows p m \<Longrightarrow> follows (if c then p else []) (whenE c m)"
  by (simp add: whenE_def)

lemma follows_forEach:
  "(\<And>x. follows (plan x) (f x)) \<Longrightarrow> follows (concat (map plan xs)) (forEach xs f)"
proof (induction xs)
  case Nil
  then show ?case by simp
next
  case (Cons x xs)
  have "follows (plan x @ concat (map plan xs)) (bindE (f x) (\<lambda>_. forEach xs f))"
    by (rule follows_bindE) (simp_all add: Cons)
  then show ?case by simp
qed


lemma isLabelCall_simps [simp]:
  "isLabelCall (GetMailboxLock p)" "isLabelCall (LockRelease p)"
  "isLabelCall (MessageFlagsAdd u fl)" "isLabelCall (MessageFlagsRemove u fl)"
  "isLabelCall (MessageMove u d)" "\<not> isLabelCall ImapConnect"
  by (simp_all add: isLabelCall_def lockCall_def isMutation_def)

lemma isMutation_simps [simp]:
  "\<not> isMutation (GetMailboxLock p)" "\<not> isMutation (LockRelease p)"
  "isMutation (MessageFlagsAdd u fl)" "isMutation (MessageFlagsRemove u fl)"
  "isMutation (MessageMove u d)"
  by (simp_all add: isMutation_def)

lemma connectIfNeeded_quiet:
  "labelCalls (events connectIfNeeded w) = []"
  "list_ex failed (events connectIfNeeded w) = (\<not> resolved (result connectIfNeeded w))"
  by (simp_all add: events_connectIfNeeded result_connectIfNeeded events_connect result_connect
      attempting_def alreadyConnected_def split: response.splits)

lemma follows_setFlags:
  "follows [GetMailboxLock p, MessageFlagsAdd u fl, LockRelease p] (ImapService_setFlags p u fl)"
  unfolding follows_def ImapService_setFlags_def
  using connectIfNeeded_quiet
  by (simp add: result_bindE events_bindE result_withMailboxLock events_withMailboxLock
      events_rethrow result_call events_call acquire_def release_def
      split: outcome.splits response.splits)

lemma follows_unsetFlags:
  "follows [GetMailboxLock p, MessageFlagsRemove u fl, LockRelease p] (ImapService_unsetFlags p u fl)"
  unfolding follows_def ImapService_unsetFlags_def
  using connectIfNeeded_quiet
  by (simp add: result_bindE events_bindE result_withMailboxLock events_withMailboxLock
      events_rethrow result_call events_call acquire_def release_def
      split: outcome.splits response.splits)

lemma follows_moveMessage:
  "follows [GetMailboxLock p, MessageMove u d, LockRelease p] (ImapService_moveMessage p u d)"
  unfolding follows_def ImapService_moveMessage_def
  using connectIfNeeded_quiet
  by (simp add: result_bindE events_bindE result_withMailboxLock events_withMailboxLock
      events_rethrow result_call events_call acquire_def release_def
      split: outcome.splits response.splits)


lemma follows_modifyLabelsOf: "follows (labelPlan options id') (modifyLabelsOf options id')"
proof -
  let ?move =
    "if ''TRASH'' \<in> set (addLabels options) then
        ImapService_moveMessage ''INBOX'' id' ''Trash''
      else if ''INBOX'' \<in> set (removeLabels options) \<and> ''TRASH'' \<notin> set (addLabels options) then
        ImapService_moveMessage ''INBOX'' id' ''Archive''
      else returnE ()"
  have move: "follows
     (if ''TRASH'' \<in> set (addLabels options) then locked (MessageMove id' ''Trash'')
      else if ''INBOX'' \<in> set (removeLabels options) then locked (MessageMove id' ''Archive'')
      else []) ?move"
    by (simp add: locked_def follows_moveMessage)
  show ?thesis
    unfolding labelPlan_def modifyLabelsOf_def Let_def
    by (intro follows_bindE follows_whenE move; simp add: locked_def follows_setFlags follows_unsetFlags)
qed

lemma follows_modifyLabels:
  "follows (concat (map (labelPlan options) ids)) (Manager_modifyLabels ids options)"
  unfolding Manager_modifyLabels_def by (rule follows_forEach) (rule follows_modifyLabelsOf)

text \<open>
  C4. The calls modifyLabels makes on the mailbox are those of the label model, for every
  id in order: for every environment, a call that returns has made exactly the calls of the
  plan of each id, one after the other, and none of them failed; the flag stores and moves made
  by a call that does not return are the first ones of that plan; and a call none of whose
  library calls fails returns. Labels other than STARRED and IMPORTANT (added or removed),
  TRASH (added) and INBOX (removed) put nothing in the plan.
\<close>

theorem modifyLabels_label_model:
  "(resolved (result (Manager_modifyLabels ids options) w) \<longrightarrow>
      labelCalls (events (Manager_modifyLabels ids options) w)
        = concat (map (labelPlan options) ids)
      \<and> \<not> list_ex failed (events (Manager_modifyLabels ids options) w))
   \<and> (\<exists>rest. filter isMutation (concat (map (labelPlan options) ids))
         = filter isMutation (labelCalls (events (Manager_modifyLabels ids options) w)) @ rest)
   \<and> (\<not> list_ex failed (events (Manager_modifyLabels ids options) w) \<longrightarrow>
        resolved (result (Manager_modifyLabels ids options) w))
   \<and> (set (addLabels options) \<inter> {''STARRED'', ''IMPORTANT'', ''TRASH''} = {}
        \<and> set (removeLabels options) \<inter> {''STARRED'', ''IMPORTANT'', ''INBOX''} = {} \<longrightarrow>
        labelPlan options id' = [])
   \<and> labelPlan \<lparr>addLabels = [''STARRED''], removeLabels = []\<rparr> id'
        = [GetMailboxLock ''INBOX'', MessageFlagsAdd id' [Starred], LockRelease ''INBOX'']"
  using follows_modifyLabels [of options ids, unfolded follows_def, rule_format, of w]
  by (simp add: labelPlan_def locked_def)

theorem modifyLabels_label_model_witness:
  "resolved (result (Manager_modifyLabels [''11'', ''12'']
        \<lparr>addLabels = [''STARRED'', ''TRASH'', ''CUSTOM''], removeLabels = [''IMPORTANT'', ''INBOX'']\<rparr>) imapWorld)
   \<and> labelCalls (events (Manager_modifyLabels [''11'', ''12'']
        \<lparr>addLabels = [''STARRED'', ''TRASH'', ''CUSTOM''], removeLabels = [''IMPORTANT'', ''INBOX'']\<rparr>) imapWorld)
      = [GetMailboxLock ''INBOX'', MessageFlagsAdd ''11'' [Starred], LockRelease ''INBOX'',
         GetMailboxLock ''INBOX'', MessageFlagsRemove ''11'' [Flagged], LockRelease ''INBOX'',
         GetMailboxLock ''INBOX'', MessageMove ''11'' ''Trash'', LockRelease ''INBOX'',
         GetMailboxLock ''INBOX'', MessageFlagsAdd ''12'' [Starred], LockRelease ''INBOX'',
         GetMailboxLock ''INBOX'', MessageFlagsRemove ''12'' [Flagged], LockRelease ''INBOX'',
         GetMailboxLock ''INBOX'', MessageMove ''12'' ''Trash'', LockRelease ''INBOX'']
   \<and> \<not> list_ex failed (events (Manager_modifyLabels [''11'', ''12'']
        \<lparr>addLabels = [''STARRED'', ''TRASH'', ''CUSTOM''], removeLabels = [''IMPORTANT'', ''INBOX'']\<rparr>) imapWorld)
   \<and> labelPlan \<lparr>addLabels = [''CUSTOM'', ''INBOX''], removeLabels = [''TRASH'', ''UNREAD'']\<rparr> ''11'' = []"
proof -
  let ?o = "\<lparr>addLabels = [''STARRED'', ''TRASH'', ''CUSTOM''], removeLabels = [''IMPORTANT'', ''INBOX'']\<rparr>"
  let ?q = "\<lparr>addLabels = [''CUSTOM'', ''INBOX''], removeLabels = [''TRASH'', ''UNREAD'']\<rparr>"
  have nf: "\<not> list_ex failed (events (Manager_modifyLabels [''11'', ''12''] ?o) imapWorld)"
    by code_simp
  have plan: "concat (map (labelPlan ?o) [''11'', ''12'']) =
       [GetMailboxLock ''INBOX'', MessageFlagsAdd ''11'' [Starred], LockRelease ''INBOX'',
         GetMailboxLock ''INBOX'', MessageFlagsRemove ''11'' [Flagged], LockRelease ''INBOX'',
         GetMailboxLock ''INBOX'', MessageMove ''11'' ''Trash'', LockRelease ''INBOX'',
         GetMailboxLock ''INBOX'', MessageFlagsAdd ''12'' [Starred], LockRelease ''INBOX'',
         GetMailboxLock ''INBOX'', MessageFlagsRemove ''12'' [Flagged], LockRelease ''INBOX'',
         GetMailboxLock ''INBOX'', MessageMove ''12'' ''Trash'', LockRelease ''INBOX'']"
    by (simp add: labelPlan_def locked_def)
  have none: "set (addLabels ?q) \<inter> {''STARRED'', ''IMPORTANT'', ''TRASH''} = {}
        \<and> set (removeLabels ?q) \<inter> {''STARRED'', ''IMPORTANT'', ''INBOX''} = {}"
    by simp
  note t = modifyLabels_label_model [of "[''11'', ''12'']" ?o imapWorld]
  note q = modifyLabels_label_model [of "[]" ?q imapWorld "''11''"]
  from t nf have r: "resolved (result (Manager_modifyLabels [''11'', ''12''] ?o) imapWorld)"
    by blast
  with t have "labelCalls (events (Manager_modifyLabels [''11'', ''12''] ?o) imapWorld)
        = concat (map (labelPlan ?o) [''11'', ''12''])" by blast
  moreover from q none have "labelPlan ?q ''11'' = []" by blast
  ultimately show ?thesis using r nf plan by simp
qed

lemma isImapCall_simps [simp]:
  "isImapCall ImapConnect" "inMailbox c \<Longrightarrow> isImapCall c"
  "isImapCall (GetMailboxLock p)" "isImapCall (LockRelease p)" "isImapCall (ImapStatus p)"
  "isImapCall (ImapFetch r)" "isImapCall (ImapFetchOne u)" "isImapCall (ImapDownload u q)"
  "isImapCall (MessageFlagsAdd u fl)" "isImapCall (MessageFlagsRemove u fl)"
  "isImapCall (MessageMove u d)"
  by (simp_all add: isImapCall_def inMailbox_def)

lemma ignoresLocks_pop3Service [simp]: "ignoresLocks pop3Service"
  by (simp add: ignoresLocks_def)






lemma smtp_sendMail:
  "calls isSmtpCall (SmtpService_sendMail u options)" "keeps pop3Service (SmtpService_sendMail u options)"
  unfolding SmtpService_sendMail_def Let_def
  by (intro keeps_intros calls_intros; simp add: isSmtpCall_def)+




















end
